theory Spec2Isabelle
  imports Main
begin

section \<open>Data model\<close>

text \<open>
  A shallow embedding of the job engine: \<^verbatim>\<open>executor/engine/core.py\<close> (Engine,
  Resource, EngineSetting), \<^verbatim>\<open>executor/engine/job/base.py\<close> (JobFuture, Job) and
  \<^verbatim>\<open>executor/engine/job/dask.py\<close> (DaskJob).

  Every coroutine of the source runs on one event loop, so the code between two
  suspension points is atomic.  Each such stretch is one function on the engine
  state; a lifecycle task is a record of the suspension point its coroutine waits at.
\<close>

type_synonym job_id = string

text \<open>Exceptions the code raises or receives from the user's callable.\<close>

datatype pyexn =
    ValueError string
  | TypeError
  | JobEmitError
  | InvalidStateError
  | ExecutorError
  | AttributeError
  | AssertionError
  | KeyError
  | StopResolve

text \<open>
  Python values that flow through a job: \<open>VNone\<close> is \<^verbatim>\<open>None\<close>, \<open>VFuture i\<close> is a
  \<^verbatim>\<open>JobFuture\<close> object whose \<^verbatim>\<open>job_id\<close> is \<open>i\<close> (the only thing the code reads
  of a future argument), \<open>VExc\<close> is an exception object handed around as a value.
\<close>

datatype pyval =
    VNone
  | VInt int
  | VStr string
  | VFuture job_id
  | VExc pyexn

text \<open>
  A user callback: a name (what the call log records) and what a call does with its
  argument, \<open>None\<close> for a normal return and \<open>Some x\<close> when it raises \<open>x\<close>.
\<close>

datatype callback = Callback (cb_name: string) (cb_call: "pyval \<Rightarrow> pyexn option")

datatype job_status = Created | Pending | Running | Done | Failed | Cancelled

text \<open>
  Modelled from the spec: \<^verbatim>\<open>job/condition.py\<close> is not among the sources.  The
  condition nodes of the spec's data model (section 3): \<open>AfterAnother\<close> holds iff the
  referenced job is done, \<open>AfterOthers\<close> iff all referenced jobs are terminal,
  \<open>AllSatisfied\<close> and \<open>AnySatisfied\<close> are the boolean composites.
\<close>

datatype condition =
    AfterAnother job_id
  | AfterOthers "job_id list"
  | AllSatisfied "condition list"
  | AnySatisfied "condition list"

text \<open>
  A counter of \<^verbatim>\<open>Resource\<close>: an integer, or \<^verbatim>\<open>float('inf')\<close>, which arithmetic
  leaves as it is.
\<close>

datatype slots = Slots int | Unbounded

fun slots_pos :: "slots \<Rightarrow> bool" where
  "slots_pos (Slots n) = (0 < n)"
| "slots_pos Unbounded = True"

fun slots_dec :: "slots \<Rightarrow> slots" where
  "slots_dec (Slots n) = Slots (n - 1)"
| "slots_dec Unbounded = Unbounded"

fun slots_inc :: "slots \<Rightarrow> slots" where
  "slots_inc (Slots n) = Slots (n + 1)"
| "slots_inc Unbounded = Unbounded"

record resource =
  n_thread :: slots
  n_process :: slots
  n_dask :: slots
  n_job :: slots

record engine_setting =
  max_threads :: "int option"
  max_processes :: "int option"
  max_dask_jobs :: "int option"
  max_jobs :: "int option"

text \<open>\<^verbatim>\<open>x or float('inf')\<close>: \<^verbatim>\<open>None\<close> and \<^verbatim>\<open>0\<close> are falsy.\<close>

fun or_inf :: "int option \<Rightarrow> slots" where
  "or_inf None = Unbounded"
| "or_inf (Some n) = (if n = 0 then Unbounded else Slots n)"

definition setup_by_setting :: "engine_setting \<Rightarrow> resource" where
  "setup_by_setting setting =
     \<lparr> n_thread = or_inf (max_threads setting),
       n_process = or_inf (max_processes setting),
       n_dask = or_inf (max_dask_jobs setting),
       n_job = or_inf (max_jobs setting) \<rparr>"

definition default_setting :: engine_setting where
  "default_setting =
     \<lparr> max_threads = None, max_processes = None, max_dask_jobs = None, max_jobs = Some 20 \<rparr>"

record job_future =
  job_id :: job_id
  fut_result :: pyval
  fut_exception :: "pyexn option"
  done_callbacks :: "callback list"
  error_callbacks :: "callback list"

definition JobFuture_init :: "job_id \<Rightarrow> job_future" where
  "JobFuture_init i =
     \<lparr> job_id = i, fut_result = VNone, fut_exception = None,
       done_callbacks = [], error_callbacks = [] \<rparr>"

definition JobFuture_result :: "job_future \<Rightarrow> pyval" where
  "JobFuture_result f = fut_result f"

definition set_result :: "pyval \<Rightarrow> job_future \<Rightarrow> job_future" where
  "set_result r f = f\<lparr>fut_result := r\<rparr>"

definition JobFuture_exception :: "job_future \<Rightarrow> pyexn option" where
  "JobFuture_exception f = fut_exception f"

definition set_exception :: "pyexn \<Rightarrow> job_future \<Rightarrow> job_future" where
  "set_exception x f = f\<lparr>fut_exception := Some x\<rparr>"

definition add_done_callback :: "callback \<Rightarrow> job_future \<Rightarrow> job_future" where
  "add_done_callback c f = f\<lparr>done_callbacks := done_callbacks f @ [c]\<rparr>"

definition add_error_callback :: "callback \<Rightarrow> job_future \<Rightarrow> job_future" where
  "add_error_callback c f = f\<lparr>error_callbacks := error_callbacks f @ [c]\<rparr>"

text \<open>
  The class of a job object: \<^verbatim>\<open>Job\<close> itself, whose \<^verbatim>\<open>run\<close> is \<^verbatim>\<open>pass\<close>, or
  \<^verbatim>\<open>DaskJob\<close>, which overrides the resource methods, \<^verbatim>\<open>run\<close>, \<^verbatim>\<open>cancel\<close> and
  \<^verbatim>\<open>clear_context\<close>.
\<close>

datatype job_kind = BaseJob | DaskJob

text \<open>
  A user callable: what a call on positional and keyword arguments gives, a value or
  the exception it raises.
\<close>

type_synonym pyfunc = "pyval list \<Rightarrow> (string \<times> pyval) list \<Rightarrow> pyexn + pyval"

text \<open>
  The fields of \<^verbatim>\<open>Job\<close> the lifecycle reads or writes.  \<open>engine_bound\<close> is
  \<^verbatim>\<open>self.engine is not None\<close>; \<open>task\<close> is the index of the job's current lifecycle
  task in the engine's task table; \<open>executor_set\<close> is \<^verbatim>\<open>self._executor is not None\<close>.
  Names, timestamps, delays and the output and directory wrappers carry no behaviour
  of the lifecycle and are left out.
\<close>

record job =
  id_job :: job_id
  kind :: job_kind
  future :: job_future
  func :: pyfunc
  args :: "pyval list"
  kwargs :: "(string \<times> pyval) list"
  retries :: int
  retry_remain :: int
  engine_bound :: bool
  status :: job_status
  task :: "nat option"
  condition :: "condition option"
  executor_set :: bool
  dep_job_ids :: "job_id list"

definition Job_init ::
  "job_kind \<Rightarrow> job_id \<Rightarrow> pyfunc \<Rightarrow> pyval list \<Rightarrow> (string \<times> pyval) list \<Rightarrow>
   callback option \<Rightarrow> callback option \<Rightarrow> int \<Rightarrow> condition option \<Rightarrow> job" where
  "Job_init k i f as kws cb err_cb n cond =
     \<lparr> id_job = i, kind = k,
       future =
         (let fu = JobFuture_init i;
              fu1 = (case cb of None \<Rightarrow> fu | Some c \<Rightarrow> add_done_callback c fu)
          in (case err_cb of None \<Rightarrow> fu1 | Some c \<Rightarrow> add_error_callback c fu1)),
       func = f, args = as, kwargs = kws,
       retries = n, retry_remain = n,
       engine_bound = False, status = Created, task = None,
       condition = cond, executor_set = False, dep_job_ids = [] \<rparr>"

text \<open>
  The suspension point a lifecycle task (the coroutine \<^verbatim>\<open>wait_and_run\<close>) waits at:
  the poll sleep of the loop, the \<^verbatim>\<open>await self.run()\<close>, the retry sleep inside
  \<^verbatim>\<open>on_failed\<close>; or how it ended: it returned a value, an exception left it, or it
  was cancelled (asyncio's \<^verbatim>\<open>CancelledError\<close> is not an \<^verbatim>\<open>Exception\<close>, so no
  handler of the source catches it).
\<close>

datatype task_state =
    AtPoll | AtRun | AtRetrySleep
  | Returned pyval | Raised pyexn | TaskCancelled

record task_rec =
  t_job :: job_id
  t_state :: task_state

text \<open>
  The engine: its resource counters, the registry \<^verbatim>\<open>Engine.jobs\<close> (ids in the order
  added), the job objects by id, the tasks created on its loop, and the log of
  callback calls (name and argument, in call order).

  \<open>print_traceback\<close> is the attribute of that name which \<^verbatim>\<open>Job.on_failed\<close> reads from
  the engine object.  Nothing in \<^verbatim>\<open>core.py\<close> assigns it (not \<^verbatim>\<open>Engine.__init__\<close>, not
  \<^verbatim>\<open>setup_by_setting\<close>, and \<^verbatim>\<open>EngineSetting\<close> has no such field), so an engine as
  the source builds it does not have the attribute: \<open>None\<close>.  \<open>Some b\<close> stands for an
  engine object on which a caller has assigned it.
\<close>

record engine =
  resource :: resource
  jobs :: "job_id list"
  heap :: "job_id \<Rightarrow> job option"
  tasks :: "task_rec list"
  fired :: "(string \<times> pyval) list"
  print_traceback :: "bool option"

definition Engine_init :: "engine_setting \<Rightarrow> engine" where
  "Engine_init setting =
     \<lparr> resource = setup_by_setting setting, jobs = [], heap = (\<lambda>_. None),
       tasks = [], fired = [], print_traceback = None \<rparr>"

text \<open>Constructing a job object puts it on the heap; the engine does not know it yet.\<close>

definition new_job :: "job \<Rightarrow> engine \<Rightarrow> engine" where
  "new_job j e = e\<lparr>heap := (heap e)(id_job j \<mapsto> j)\<rparr>"

section \<open>Resource accounting\<close>

definition Job_has_resource :: "engine \<Rightarrow> job \<Rightarrow> bool" where
  "Job_has_resource e j =
     (if \<not> engine_bound j then False else slots_pos (n_job (resource e)))"

definition Job_consume_resource :: "engine \<Rightarrow> job \<Rightarrow> bool \<times> engine" where
  "Job_consume_resource e j =
     (if \<not> engine_bound j then (False, e)
      else (True, e\<lparr>resource := (resource e)\<lparr>n_job := slots_dec (n_job (resource e))\<rparr>\<rparr>))"

definition Job_release_resource :: "engine \<Rightarrow> job \<Rightarrow> bool \<times> engine" where
  "Job_release_resource e j =
     (if \<not> engine_bound j then (False, e)
      else (True, e\<lparr>resource := (resource e)\<lparr>n_job := slots_inc (n_job (resource e))\<rparr>\<rparr>))"

definition DaskJob_has_resource :: "engine \<Rightarrow> job \<Rightarrow> bool" where
  "DaskJob_has_resource e j =
     (if \<not> engine_bound j then False
      else Job_has_resource e j \<and> slots_pos (n_dask (resource e)))"

definition DaskJob_consume_resource :: "engine \<Rightarrow> job \<Rightarrow> bool \<times> engine" where
  "DaskJob_consume_resource e j =
     (if \<not> engine_bound j then (False, e)
      else
        (let e1 = e\<lparr>resource := (resource e)\<lparr>n_dask := slots_dec (n_dask (resource e))\<rparr>\<rparr>;
             (ok, e2) = Job_consume_resource e1 j
         in (ok \<and> True, e2)))"

definition DaskJob_release_resource :: "engine \<Rightarrow> job \<Rightarrow> bool \<times> engine" where
  "DaskJob_release_resource e j =
     (if \<not> engine_bound j then (False, e)
      else
        (let e1 = e\<lparr>resource := (resource e)\<lparr>n_dask := slots_inc (n_dask (resource e))\<rparr>\<rparr>;
             (ok, e2) = Job_release_resource e1 j
         in (ok \<and> True, e2)))"

text \<open>Method dispatch on the class of the job.\<close>

definition has_resource :: "engine \<Rightarrow> job \<Rightarrow> bool" where
  "has_resource e j =
     (case kind j of BaseJob \<Rightarrow> Job_has_resource e j | DaskJob \<Rightarrow> DaskJob_has_resource e j)"

definition consume_resource :: "engine \<Rightarrow> job \<Rightarrow> bool \<times> engine" where
  "consume_resource e j =
     (case kind j of
        BaseJob \<Rightarrow> Job_consume_resource e j
      | DaskJob \<Rightarrow> DaskJob_consume_resource e j)"

definition release_resource :: "engine \<Rightarrow> job \<Rightarrow> bool \<times> engine" where
  "release_resource e j =
     (case kind j of
        BaseJob \<Rightarrow> Job_release_resource e j
      | DaskJob \<Rightarrow> DaskJob_release_resource e j)"

section \<open>Registry and conditions\<close>

text \<open>Writing the job object \<open>i\<close> back after a method changed it.\<close>

definition store :: "job_id \<Rightarrow> job \<Rightarrow> engine \<Rightarrow> engine" where
  "store i j e = e\<lparr>heap := (heap e)(i \<mapsto> j)\<rparr>"

text \<open>
  Modelled from the spec: \<^verbatim>\<open>manager.py\<close> (the registry \<^verbatim>\<open>Jobs\<close>) is not among the
  sources.  The registry maps the ids that were added to their jobs; a lookup of an
  id that was never added finds nothing.
\<close>

definition get_job_by_id :: "engine \<Rightarrow> job_id \<Rightarrow> job option" where
  "get_job_by_id e i = (if i \<in> set (jobs e) then heap e i else None)"

definition terminal :: "job_status \<Rightarrow> bool" where
  "terminal s = (s = Done \<or> s = Failed \<or> s = Cancelled)"

text \<open>
  Modelled from the spec: \<^verbatim>\<open>Condition.satisfy\<close> (section 3, "Condition"), the
  composites evaluated in declaration order.  A condition over an id that is not
  registered is not satisfied (section 4.3, tie-breaks).
\<close>

fun satisfy :: "engine \<Rightarrow> condition \<Rightarrow> bool" where
  "satisfy e (AfterAnother i) =
     (case get_job_by_id e i of None \<Rightarrow> False | Some u \<Rightarrow> status u = Done)"
| "satisfy e (AfterOthers ids) =
     list_all (\<lambda>i. case get_job_by_id e i of None \<Rightarrow> False | Some u \<Rightarrow> terminal (status u)) ids"
| "satisfy e (AllSatisfied cs) = list_all (satisfy e) cs"
| "satisfy e (AnySatisfied cs) = list_ex (satisfy e) cs"

section \<open>Job methods\<close>

text \<open>
  A method of \<^verbatim>\<open>Job\<close> takes the engine and \<open>self\<close> and returns both as it leaves
  them; the caller writes \<open>self\<close> back to the heap.
\<close>

text \<open>The job ids of the \<^verbatim>\<open>JobFuture\<close> objects among some arguments, in order.\<close>

fun future_ids :: "pyval list \<Rightarrow> job_id list" where
  "future_ids [] = []"
| "future_ids (VFuture i # xs) = i # future_ids xs"
| "future_ids (_ # xs) = future_ids xs"

definition resolve_dependencies :: "job \<Rightarrow> job" where
  "resolve_dependencies j =
     (let dep_jobs_ids = future_ids (args j @ map snd (kwargs j));
          j1 = (if length dep_jobs_ids > 0 then
                  (let after_others = AfterOthers dep_jobs_ids in
                   (case condition j of
                      None \<Rightarrow> j\<lparr>condition := Some after_others\<rparr>
                    | Some c \<Rightarrow> j\<lparr>condition := Some (AllSatisfied [c, after_others])\<rparr>))
                else j)
      in j1\<lparr>dep_job_ids := dep_jobs_ids\<rparr>)"

definition on_finish :: "job_status \<Rightarrow> engine \<Rightarrow> job \<Rightarrow> engine \<times> job" where
  "on_finish new_status e j =
     (let j1 = j\<lparr>status := new_status\<rparr>;
          (ok, e1) = release_resource e j1
      in (e1, j1))"

definition clear_context :: "job \<Rightarrow> job" where
  "clear_context j = (case kind j of BaseJob \<Rightarrow> j | DaskJob \<Rightarrow> j\<lparr>executor_set := False\<rparr>)"

text \<open>
  \<^verbatim>\<open>Task.cancel()\<close>: a task that has not ended is cancelled; it never runs again.
\<close>

definition task_cancel :: "nat \<Rightarrow> engine \<Rightarrow> engine" where
  "task_cancel t e =
     (if t < length (tasks e) then
        (case t_state (tasks e ! t) of
           Returned v \<Rightarrow> e
         | Raised x \<Rightarrow> e
         | TaskCancelled \<Rightarrow> e
         | _ \<Rightarrow> e\<lparr>tasks := (tasks e)[t := (tasks e ! t)\<lparr>t_state := TaskCancelled\<rparr>]\<rparr>)
      else e)"

text \<open>
  \<^verbatim>\<open>Job.cancel\<close>.  \<^verbatim>\<open>self.task.cancel()\<close> comes first and has no guard: on a job
  whose \<^verbatim>\<open>task\<close> is \<^verbatim>\<open>None\<close> the attribute lookup raises.
\<close>

definition Job_cancel :: "engine \<Rightarrow> job \<Rightarrow> pyexn + engine \<times> job" where
  "Job_cancel e j =
     (case task j of
        None \<Rightarrow> Inl AttributeError
      | Some t \<Rightarrow>
          (let e1 = task_cancel t e in
           if status j = Running then Inr (on_finish Cancelled e1 (clear_context j))
           else if status j = Pending then Inr (e1, j\<lparr>status := Cancelled\<rparr>)
           else Inr (e1, j)))"

definition DaskJob_cancel :: "engine \<Rightarrow> job \<Rightarrow> pyexn + engine \<times> job" where
  "DaskJob_cancel e j =
     (if status j = Running \<and> \<not> executor_set j then Inl AttributeError
      else Job_cancel e j)"

definition cancel :: "engine \<Rightarrow> job \<Rightarrow> pyexn + engine \<times> job" where
  "cancel e j = (case kind j of BaseJob \<Rightarrow> Job_cancel e j | DaskJob \<Rightarrow> DaskJob_cancel e j)"

definition Job_result :: "job \<Rightarrow> pyexn + pyval" where
  "Job_result j =
     (if status j \<noteq> Done then Inl InvalidStateError else Inr (JobFuture_result (future j)))"

definition Job_exception :: "job \<Rightarrow> pyexn option" where
  "Job_exception j = JobFuture_exception (future j)"

text \<open>
  \<^verbatim>\<open>_resolve_arg\<close>.  What the registry's lookup does on an id it does not hold is not
  in the sources; \<open>KeyError\<close> stands for its failure.
\<close>

definition resolve_arg :: "engine \<Rightarrow> job \<Rightarrow> pyval \<Rightarrow> (pyexn + pyval) \<times> engine \<times> job" where
  "resolve_arg e j arg =
     (case arg of
        VFuture i \<Rightarrow>
          (if \<not> engine_bound j then (Inl AssertionError, e, j)
           else
             (case get_job_by_id e i of
                None \<Rightarrow> (Inl KeyError, e, j)
              | Some u \<Rightarrow>
                  if status u = Done then (Job_result u, e, j)
                  else if status u = Failed \<or> status u = Cancelled then
                    (case cancel e j of
                       Inl x \<Rightarrow> (Inl x, e, j)
                     | Inr (e1, j1) \<Rightarrow> (Inl StopResolve, e1, j1))
                  else (Inl ExecutorError, e, j)))
      | _ \<Rightarrow> (Inr arg, e, j))"

fun resolve_list ::
  "engine \<Rightarrow> job \<Rightarrow> pyval list \<Rightarrow> (pyexn + pyval list) \<times> engine \<times> job" where
  "resolve_list e j [] = (Inr [], e, j)"
| "resolve_list e j (a # as) =
     (case resolve_arg e j a of
        (Inl x, e1, j1) \<Rightarrow> (Inl x, e1, j1)
      | (Inr v, e1, j1) \<Rightarrow>
          (case resolve_list e1 j1 as of
             (Inl x, e2, j2) \<Rightarrow> (Inl x, e2, j2)
           | (Inr vs, e2, j2) \<Rightarrow> (Inr (v # vs), e2, j2)))"

fun resolve_items ::
  "engine \<Rightarrow> job \<Rightarrow> (string \<times> pyval) list \<Rightarrow>
   (pyexn + (string \<times> pyval) list) \<times> engine \<times> job" where
  "resolve_items e j [] = (Inr [], e, j)"
| "resolve_items e j ((k, a) # kas) =
     (case resolve_arg e j a of
        (Inl x, e1, j1) \<Rightarrow> (Inl x, e1, j1)
      | (Inr v, e1, j1) \<Rightarrow>
          (case resolve_items e1 j1 kas of
             (Inl x, e2, j2) \<Rightarrow> (Inl x, e2, j2)
           | (Inr kvs, e2, j2) \<Rightarrow> (Inr ((k, v) # kvs), e2, j2)))"

text \<open>
  \<^verbatim>\<open>resolve_args\<close>: \<open>None\<close> when it returns, \<open>Some x\<close> when \<open>x\<close> leaves it.  The new
  \<^verbatim>\<open>args\<close> and \<^verbatim>\<open>kwargs\<close> are assigned only after every argument resolved.
\<close>

definition resolve_args :: "engine \<Rightarrow> job \<Rightarrow> pyexn option \<times> engine \<times> job" where
  "resolve_args e j =
     (if length (dep_job_ids j) > 0 then
        (case resolve_list e j (args j) of
           (Inl x, e1, j1) \<Rightarrow> (Some x, e1, j1)
         | (Inr as, e1, j1) \<Rightarrow>
             (case resolve_items e1 j1 (kwargs j1) of
                (Inl x, e2, j2) \<Rightarrow> (Some x, e2, j2)
              | (Inr kws, e2, j2) \<Rightarrow> (None, e2, j2\<lparr>args := as, kwargs := kws\<rparr>)))
      else (None, e, j))"

definition runnable :: "engine \<Rightarrow> job \<Rightarrow> bool" where
  "runnable e j =
     (if \<not> engine_bound j then False
      else
        (case condition j of
           Some c \<Rightarrow> satisfy e c \<and> has_resource e j
         | None \<Rightarrow> has_resource e j))"

text \<open>
  \<^verbatim>\<open>emit\<close>: the new task is appended to the task table and starts at the head of the
  loop of \<^verbatim>\<open>wait_and_run\<close>.
\<close>

definition emit :: "engine \<Rightarrow> job \<Rightarrow> pyexn + engine \<times> job" where
  "emit e j =
     (if status j \<noteq> Pending then Inl JobEmitError
      else
        (let j1 = resolve_dependencies j;
             t = length (tasks e);
             e1 = e\<lparr>tasks := tasks e @ [\<lparr>t_job = id_job j, t_state = AtPoll\<rparr>]\<rparr>
         in Inr (e1, j1\<lparr>task := Some t\<rparr>)))"

definition rerun :: "bool \<Rightarrow> engine \<Rightarrow> job \<Rightarrow> pyexn + engine \<times> job" where
  "rerun check_status e j =
     (if check_status \<and> \<not> terminal (status j) then Inl JobEmitError
      else emit e (j\<lparr>status := Pending\<rparr>))"

text \<open>
  The loop \<^verbatim>\<open>for callback in callbacks: callback(arg)\<close>: each call is logged; a
  callback that raises ends the loop with its exception.
\<close>

fun fire :: "callback list \<Rightarrow> pyval \<Rightarrow> engine \<Rightarrow> pyexn option \<times> engine" where
  "fire [] v e = (None, e)"
| "fire (c # cs) v e =
     (let e1 = e\<lparr>fired := fired e @ [(cb_name c, v)]\<rparr> in
      (case cb_call c v of
         Some x \<Rightarrow> (Some x, e1)
       | None \<Rightarrow> fire cs v e1))"

definition on_done :: "pyval \<Rightarrow> engine \<Rightarrow> job \<Rightarrow> pyexn option \<times> engine \<times> job" where
  "on_done res e j =
     (let j1 = j\<lparr>future := set_result res (future j)\<rparr> in
      (case fire (done_callbacks (future j1)) res e of
         (Some x, e1) \<Rightarrow> (Some x, e1, j1)
       | (None, e1) \<Rightarrow> (let (e2, j2) = on_finish Done e1 j1 in (None, e2, j2))))"

text \<open>
  \<^verbatim>\<open>on_failed\<close> up to its suspension point: \<open>Inl x\<close> when \<open>x\<close> leaves it, \<open>Inr True\<close>
  when it waits at the retry sleep, \<open>Inr False\<close> when it returned.

  After the assertion comes \<^verbatim>\<open>if self.engine.print_traceback:\<close>.  On an engine
  without that attribute the lookup raises \<^verbatim>\<open>AttributeError\<close>, before the exception
  is stored, before any error-callback, before the retry branch and before
  \<^verbatim>\<open>_on_finish\<close>.  With the attribute its value only selects a log call.
\<close>

definition on_failed :: "pyexn \<Rightarrow> engine \<Rightarrow> job \<Rightarrow> (pyexn + bool) \<times> engine \<times> job" where
  "on_failed x e j =
     (if \<not> engine_bound j then (Inl AssertionError, e, j)
      else
        (case print_traceback e of
           None \<Rightarrow> (Inl AttributeError, e, j)
         | Some b \<Rightarrow>
             (let j1 = j\<lparr>future := set_exception x (future j)\<rparr> in
              (case fire (error_callbacks (future j1)) (VExc x) e of
                 (Some y, e1) \<Rightarrow> (Inl y, e1, j1)
               | (None, e1) \<Rightarrow>
                   if retry_remain j1 > 0 then
                     (let (e2, j2) = on_finish Pending e1 j1
                      in (Inr True, e2, j2\<lparr>retry_remain := retry_remain j2 - 1\<rparr>))
                   else
                     (let (e2, j2) = on_finish Failed e1 j1 in (Inr False, e2, j2))))))"

text \<open>
  \<^verbatim>\<open>run\<close>.  \<^verbatim>\<open>Job.run\<close> is \<^verbatim>\<open>pass\<close>: it returns \<^verbatim>\<open>None\<close> and never calls the
  callable.  \<^verbatim>\<open>DaskJob.run\<close> hands the callable with the job's arguments to the
  cluster client (\<^verbatim>\<open>client.submit\<close>) and awaits the client's future.

  Assumed of the library: \<^verbatim>\<open>dask.distributed\<close> is not part of the repository, and
  what its client does is an assumption of this model, not read from the sources.
  The awaited future gives what the callable gives on these arguments, its value or
  the exception it raises.  The client keys a call by callable and arguments and the
  job keeps the future in \<^verbatim>\<open>_executor\<close>, so a later attempt of the same job is
  answered by the same future, without a new call: every attempt has the outcome of
  the first.  The outcome is therefore a function of callable and arguments.
\<close>

definition run :: "job \<Rightarrow> pyexn + pyval" where
  "run j =
     (case kind j of
        BaseJob \<Rightarrow> Inr VNone
      | DaskJob \<Rightarrow> func j (args j) (kwargs j))"

text \<open>The part of \<^verbatim>\<open>run\<close> before it suspends: a \<^verbatim>\<open>DaskJob\<close> stores its cluster future.\<close>

definition run_start :: "job \<Rightarrow> job" where
  "run_start j = (case kind j of BaseJob \<Rightarrow> j | DaskJob \<Rightarrow> j\<lparr>executor_set := True\<rparr>)"

section \<open>The lifecycle task\<close>

text \<open>
  The guard of the loop of \<^verbatim>\<open>wait_and_run\<close>,
  \<^verbatim>\<open>self.runnable() and self.consume_resource()\<close>: the only place the code takes
  resource slots.  \<^verbatim>\<open>and\<close> evaluates its right operand only when the left is true.
\<close>

definition acquire :: "engine \<Rightarrow> job \<Rightarrow> bool \<times> engine" where
  "acquire e j = (if runnable e j then consume_resource e j else (False, e))"

definition set_task :: "nat \<Rightarrow> task_state \<Rightarrow> engine \<Rightarrow> engine" where
  "set_task t s e = e\<lparr>tasks := (tasks e)[t := (tasks e ! t)\<lparr>t_state := s\<rparr>]\<rparr>"

text \<open>
  The coroutine of task \<open>t\<close> ends.  When the task was cancelled while its coroutine
  ran (a job cancels its own task in \<^verbatim>\<open>_resolve_arg\<close>), it stays cancelled.
\<close>

definition end_task :: "nat \<Rightarrow> task_state \<Rightarrow> engine \<Rightarrow> engine" where
  "end_task t s e = (if t_state (tasks e ! t) = TaskCancelled then e else set_task t s e)"

text \<open>
  One pass of the loop of \<^verbatim>\<open>wait_and_run\<close>, from the guard to the next suspension
  point: the poll sleep (nothing changes), or \<^verbatim>\<open>await self.run()\<close>.
\<close>

definition wait_and_run_poll :: "nat \<Rightarrow> engine \<Rightarrow> engine" where
  "wait_and_run_poll t e =
     (case heap e (t_job (tasks e ! t)) of
        None \<Rightarrow> e
      | Some j \<Rightarrow>
          (case acquire e j of
             (False, e1) \<Rightarrow> e1
           | (True, e1) \<Rightarrow>
               (case resolve_args e1 j of
                  (Some x, e2, j2) \<Rightarrow>
                    if x = StopResolve
                    then end_task t (Returned VNone) (store (t_job (tasks e ! t)) j2 e2)
                    else end_task t (Raised x) (store (t_job (tasks e ! t)) j2 e2)
                | (None, e2, j2) \<Rightarrow>
                    set_task t AtRun
                      (store (t_job (tasks e ! t)) (run_start (j2\<lparr>status := Running\<rparr>)) e2))))"

text \<open>
  \<^verbatim>\<open>except Exception as e: await self.on_failed(e); break\<close>, up to the retry sleep
  or the end of the coroutine, for the task \<open>t\<close> of the job object \<open>i\<close>.
\<close>

definition wait_and_run_failed ::
  "pyexn \<Rightarrow> nat \<Rightarrow> job_id \<Rightarrow> engine \<Rightarrow> job \<Rightarrow> engine" where
  "wait_and_run_failed x t i e j =
     (case on_failed x e j of
        (Inl y, e1, j1) \<Rightarrow> end_task t (Raised y) (store i j1 e1)
      | (Inr True, e1, j1) \<Rightarrow> set_task t AtRetrySleep (store i j1 e1)
      | (Inr False, e1, j1) \<Rightarrow> end_task t (Returned VNone) (store i j1 e1))"

text \<open>
  \<^verbatim>\<open>await self.run()\<close> completes.  The call of \<^verbatim>\<open>on_done\<close> stands inside the same
  \<^verbatim>\<open>try\<close>, so an exception of a done-callback goes to \<^verbatim>\<open>on_failed\<close> as well.
\<close>

definition wait_and_run_resume :: "nat \<Rightarrow> engine \<Rightarrow> engine" where
  "wait_and_run_resume t e =
     (case heap e (t_job (tasks e ! t)) of
        None \<Rightarrow> e
      | Some j \<Rightarrow>
          (case run j of
             Inr res \<Rightarrow>
               (case on_done res e j of
                  (None, e1, j1) \<Rightarrow> end_task t (Returned res) (store (t_job (tasks e ! t)) j1 e1)
                | (Some x, e1, j1) \<Rightarrow> wait_and_run_failed x t (t_job (tasks e ! t)) e1 j1)
           | Inl x \<Rightarrow> wait_and_run_failed x t (t_job (tasks e ! t)) e j))"

text \<open>
  The retry sleep of \<^verbatim>\<open>on_failed\<close> is over: \<^verbatim>\<open>await self.rerun(check_status=False)\<close>,
  then \<^verbatim>\<open>break\<close>.
\<close>

definition wait_and_run_wake :: "nat \<Rightarrow> engine \<Rightarrow> engine" where
  "wait_and_run_wake t e =
     (case heap e (t_job (tasks e ! t)) of
        None \<Rightarrow> e
      | Some j \<Rightarrow>
          (case rerun False e j of
             Inl x \<Rightarrow> end_task t (Raised x) e
           | Inr (e1, j1) \<Rightarrow> end_task t (Returned VNone) (store (t_job (tasks e ! t)) j1 e1)))"

text \<open>The event loop runs task \<open>t\<close> from its suspension point to the next one.\<close>

definition step :: "nat \<Rightarrow> engine \<Rightarrow> engine" where
  "step t e =
     (if t < length (tasks e) then
        (case t_state (tasks e ! t) of
           AtPoll \<Rightarrow> wait_and_run_poll t e
         | AtRun \<Rightarrow> wait_and_run_resume t e
         | AtRetrySleep \<Rightarrow> wait_and_run_wake t e
         | _ \<Rightarrow> e)
      else e)"

section \<open>Engine operations\<close>

text \<open>
  \<^verbatim>\<open>Engine.submit_async\<close>: the exception that leaves it, if any, and the engine as
  it leaves it.  A job that is not \<^verbatim>\<open>created\<close> is set to \<^verbatim>\<open>pending\<close> whatever its
  status was, and is not added to the registry again.
\<close>

definition submit_async :: "job_id \<Rightarrow> engine \<Rightarrow> pyexn option \<times> engine" where
  "submit_async i e =
     (case heap e i of
        None \<Rightarrow> (None, e)
      | Some j \<Rightarrow>
          (let (e1, j1) =
                 (if status j = Created
                  then (e\<lparr>jobs := jobs e @ [i]\<rparr>, j\<lparr>engine_bound := True, status := Pending\<rparr>)
                  else (e, j\<lparr>status := Pending\<rparr>))
           in (case emit e1 j1 of
                 Inl x \<Rightarrow> (Some x, store i j1 e1)
               | Inr (e2, j2) \<Rightarrow> (None, store i j2 e2))))"

text \<open>\<^verbatim>\<open>Engine.cancel\<close>: \<^verbatim>\<open>job.cancel()\<close> on the loop.\<close>

definition Engine_cancel :: "job_id \<Rightarrow> engine \<Rightarrow> pyexn option \<times> engine" where
  "Engine_cancel i e =
     (case heap e i of
        None \<Rightarrow> (None, e)
      | Some j \<Rightarrow>
          (case cancel e j of
             Inl x \<Rightarrow> (Some x, e)
           | Inr (e1, j1) \<Rightarrow> (None, store i j1 e1)))"

definition with_status :: "job_status \<Rightarrow> engine \<Rightarrow> job_id list" where
  "with_status s e =
     filter (\<lambda>i. case heap e i of None \<Rightarrow> False | Some j \<Rightarrow> status j = s) (jobs e)"

text \<open>
  \<^verbatim>\<open>Engine.cancel_all\<close>: the pending jobs, then the running ones, as listed when it
  is called.  An exception of a \<^verbatim>\<open>cancel\<close> stays in its future; nobody reads it.
\<close>

definition cancel_all :: "engine \<Rightarrow> engine" where
  "cancel_all e =
     fold (\<lambda>i e1. snd (Engine_cancel i e1)) (with_status Pending e @ with_status Running e) e"

text \<open>
  \<^verbatim>\<open>Job.deserialization(job.serialization())\<close>: the copy comes back without task,
  engine and executor; every other attribute is pickled as it is.
\<close>

definition serialization :: "job \<Rightarrow> job" where
  "serialization j = j\<lparr>task := None, engine_bound := False, executor_set := False\<rparr>"

text \<open>\<^verbatim>\<open>Job.join\<close>: the task it waits for, or the exception it raises.\<close>

definition join :: "job \<Rightarrow> pyexn + nat" where
  "join j = (case task j of None \<Rightarrow> Inl InvalidStateError | Some t \<Rightarrow> Inr t)"

text \<open>
  The coroutine \<^verbatim>\<open>wait_run\<close> of \<^verbatim>\<open>Engine.submit\<close> after its \<^verbatim>\<open>await job.join()\<close>:
  what the returned future resolves to (\<open>Inr\<close>) or raises (\<open>Inl\<close>), read from the job
  as it is when the awaited task has ended.
\<close>

definition exception_value :: "pyexn option \<Rightarrow> pyval" where
  "exception_value x = (case x of None \<Rightarrow> VNone | Some y \<Rightarrow> VExc y)"

definition wait_run :: "job \<Rightarrow> pyexn + pyval" where
  "wait_run j =
     (if status j = Done then Job_result j else Inr (exception_value (Job_exception j)))"

definition task_ended :: "nat \<Rightarrow> engine \<Rightarrow> bool" where
  "task_ended t e =
     (t < length (tasks e) \<and>
      (case t_state (tasks e ! t) of
         Returned v \<Rightarrow> True | Raised x \<Rightarrow> True | TaskCancelled \<Rightarrow> True | _ \<Rightarrow> False))"

text \<open>
  The loop runs task \<open>t\<close>, and nothing else, until the task has ended: \<open>None\<close> when
  it has not ended after \<open>n\<close> further steps.
\<close>

fun drive :: "nat \<Rightarrow> nat \<Rightarrow> engine \<Rightarrow> engine option" where
  "drive 0 t e = (if task_ended t e then Some e else None)"
| "drive (Suc n) t e = (if task_ended t e then Some e else drive n t (step t e))"

text \<open>
  The loop runs the current task of job \<open>i\<close> for \<open>n\<close> steps, following the job from
  the task of one attempt to the task of its retry.
\<close>

fun lifecycle :: "nat \<Rightarrow> job_id \<Rightarrow> engine \<Rightarrow> engine" where
  "lifecycle 0 i e = e"
| "lifecycle (Suc n) i e =
     (case heap e i of
        None \<Rightarrow> e
      | Some j \<Rightarrow> (case task j of None \<Rightarrow> e | Some t \<Rightarrow> lifecycle n i (step t e)))"

text \<open>
  \<^verbatim>\<open>Engine.submit(job).result()\<close> when no other task and no other caller acts in
  between: \<^verbatim>\<open>submit_async\<close> (its exception is raised to the caller), then \<^verbatim>\<open>wait_run\<close>
  with the job's task driven to its end.  The result is what the future resolves to
  and the engine then; \<open>None\<close> when the task has not ended after \<open>n\<close> steps (or
  when \<open>i\<close> names no job object, which no caller can pass).
\<close>

definition submit :: "nat \<Rightarrow> job_id \<Rightarrow> engine \<Rightarrow> ((pyexn + pyval) \<times> engine) option" where
  "submit n i e =
     (case submit_async i e of
        (Some x, e1) \<Rightarrow> Some (Inl x, e1)
      | (None, e1) \<Rightarrow>
          (case heap e1 i of
             None \<Rightarrow> None
           | Some j \<Rightarrow>
               (case join j of
                  Inl x \<Rightarrow> Some (Inl x, e1)
                | Inr t \<Rightarrow>
                    (case drive n t e1 of
                       None \<Rightarrow> None
                     | Some e2 \<Rightarrow>
                         (case heap e2 i of
                            None \<Rightarrow> None
                          | Some j2 \<Rightarrow> Some (wait_run j2, e2))))))"




text \<open>
  The prefix of a callback list that one pass calls on \<open>v\<close>: up to and including the
  first callback that raises.
\<close>

fun until_raise :: "callback list \<Rightarrow> pyval \<Rightarrow> callback list" where
  "until_raise [] v = []"
| "until_raise (c # cs) v =
     (case cb_call c v of Some x \<Rightarrow> [c] | None \<Rightarrow> c # until_raise cs v)"

section \<open>Observing jobs, arguments and callbacks\<close>

text \<open>
  What \<^verbatim>\<open>_resolve_arg\<close> puts in the place of an argument when the upstream job of
  every future is done: the stored result of that job; any other value stays.
\<close>

definition resolved :: "engine \<Rightarrow> pyval \<Rightarrow> pyval" where
  "resolved e a =
     (case a of
        VFuture u \<Rightarrow>
          (case get_job_by_id e u of None \<Rightarrow> a | Some ju \<Rightarrow> fut_result (future ju))
      | _ \<Rightarrow> a)"

text \<open>The job \<open>u\<close> is registered and done.\<close>

definition upstream_done :: "engine \<Rightarrow> job_id \<Rightarrow> bool" where
  "upstream_done e u =
     (case get_job_by_id e u of None \<Rightarrow> False | Some ju \<Rightarrow> status ju = Done)"

definition resolved_args :: "engine \<Rightarrow> job \<Rightarrow> job" where
  "resolved_args e j =
     j\<lparr>args := map (resolved e) (args j),
       kwargs := map (\<lambda>(k, a). (k, resolved e a)) (kwargs j)\<rparr>"

text \<open>
  What the operations of the engine keep of a job object, from \<open>j\<close> before to \<open>j2\<close>
  after, on an engine whose \<^verbatim>\<open>print_traceback\<close> is \<open>pt\<close>: \<^verbatim>\<open>retries\<close> stays and
  \<^verbatim>\<open>retry_remain\<close> does not grow; without the attribute \<^verbatim>\<open>retry_remain\<close> and the
  stored exception stay as well.
\<close>

definition kept_job :: "bool option \<Rightarrow> job \<Rightarrow> job \<Rightarrow> bool" where
  "kept_job pt j j2 =
     (retries j2 = retries j \<and> retry_remain j2 \<le> retry_remain j \<and>
      (pt = None \<longrightarrow>
         retry_remain j2 = retry_remain j \<and>
         fut_exception (future j2) = fut_exception (future j)))"

text \<open>Reading an attribute of the job object \<open>i\<close>.\<close>

definition job_view :: "(job \<Rightarrow> 'a) \<Rightarrow> job_id \<Rightarrow> engine \<Rightarrow> 'a option" where
  "job_view f i e = map_option f (heap e i)"

text \<open>The log entries of one pass over a callback list: each callback once, in order.\<close>

definition calls :: "callback list \<Rightarrow> pyval \<Rightarrow> (string \<times> pyval) list" where
  "calls cs v = map (\<lambda>c. (cb_name c, v)) cs"

section \<open>Concrete jobs and engines\<close>

text \<open>\<^verbatim>\<open>lambda x: x * x\<close>, and a callable that raises \<^verbatim>\<open>ValueError("test")\<close>.\<close>

definition square :: pyfunc where
  "square as kws =
     (case (as, kws) of ([VInt x], []) \<Rightarrow> Inr (VInt (x * x)) | _ \<Rightarrow> Inl TypeError)"

definition raise_err :: pyfunc where
  "raise_err as kws = Inl (ValueError ''test'')"

text \<open>
  An engine with two total slots and one cluster slot, and a cluster job bound to it
  that waits at the poll.
\<close>

definition cluster_engine :: engine where
  "cluster_engine =
     Engine_init \<lparr> max_threads = None, max_processes = None,
                   max_dask_jobs = Some 1, max_jobs = Some 2 \<rparr>"

definition cluster_job :: job where
  "cluster_job =
     (Job_init DaskJob ''d'' square [VInt 2] [] None None 0 None)
       \<lparr> engine_bound := True, status := Pending \<rparr>"

text \<open>
  An engine with a single total slot (\<^verbatim>\<open>EngineSetting(max_jobs=1)\<close>), and the jobs of
  the scenarios below.  Of the cluster class: \<open>job_s\<close> squares 2 and has a
  done-callback; \<open>job_d\<close> squares the result of \<open>job_s\<close>, whose future is its
  argument; \<open>job_a\<close> raises; \<open>job_b\<close> takes the future of \<open>job_a\<close> as its argument;
  \<open>job_r\<close> raises, with one retry and an error-callback; \<open>job_t\<close> squares 3, with two
  retries; \<open>job_x\<close> squares 2, and its caller has called \<^verbatim>\<open>set_exception\<close> on its
  future before submitting it.  Of the class \<^verbatim>\<open>Job\<close> itself: \<open>job_p\<close>, with the
  callable and the argument of \<open>job_s\<close>.
\<close>

definition one_slot_engine :: engine where
  "one_slot_engine = Engine_init (default_setting\<lparr>max_jobs := Some 1\<rparr>)"

definition job_s :: job where
  "job_s =
     Job_init DaskJob ''s'' square [VInt 2] [] (Some (Callback ''on_done'' (\<lambda>v. None)))
       None 0 None"

definition job_d :: job where
  "job_d = Job_init DaskJob ''d'' square [VFuture ''s''] [] None None 0 None"

definition job_a :: job where
  "job_a = Job_init DaskJob ''a'' raise_err [] [] None None 0 None"

definition job_b :: job where
  "job_b = Job_init DaskJob ''b'' square [VFuture ''a''] [] None None 0 None"

definition job_r :: job where
  "job_r =
     Job_init DaskJob ''r'' raise_err [] [] None (Some (Callback ''on_error'' (\<lambda>v. None)))
       1 None"

definition job_t :: job where
  "job_t = Job_init DaskJob ''t'' square [VInt 3] [] None None 2 None"

definition job_x :: job where
  "job_x =
     (Job_init DaskJob ''x'' square [VInt 2] [] None None 0 None)
       \<lparr> future := set_exception (ValueError ''test'') (JobFuture_init ''x'') \<rparr>"

definition job_p :: job where
  "job_p = Job_init BaseJob ''p'' square [VInt 2] [] None None 0 None"

text \<open>
  \<open>engine_s_pending\<close>: \<open>job_s\<close> was submitted and waits at its first poll.
  \<open>engine_s_done\<close>: \<open>job_s\<close> and \<open>job_d\<close> exist, \<open>job_s\<close> was submitted and ran to
  its end.  \<open>engine_s_twice\<close>: then \<open>job_s\<close> was submitted again and ran to its end
  again.
  \<open>engine_a_cancelled\<close>: \<open>job_a\<close> and \<open>job_b\<close> exist, \<open>job_a\<close> was submitted and
  cancelled before its task ran (\<^verbatim>\<open>await engine.submit_async(a); await a.cancel()\<close>
  in one coroutine: nothing suspends in between).  \<open>engine_b_cancelled\<close>: then
  \<open>job_b\<close> was submitted and its task ran to its end.
  \<open>engine_a_stuck\<close>: \<open>job_a\<close> was submitted and its task ran to its end.
  \<open>engine_x_run\<close>: \<open>job_x\<close> was submitted and its task waits for \<^verbatim>\<open>run\<close>.
\<close>

definition engine_s_pending :: engine where
  "engine_s_pending = snd (submit_async ''s'' (new_job job_s one_slot_engine))"

definition engine_s_done :: engine where
  "engine_s_done =
     lifecycle 2 ''s'' (snd (submit_async ''s'' (new_job job_d (new_job job_s one_slot_engine))))"

definition engine_s_twice :: engine where
  "engine_s_twice = lifecycle 2 ''s'' (snd (submit_async ''s'' engine_s_done))"

definition engine_a_cancelled :: engine where
  "engine_a_cancelled =
     snd (Engine_cancel ''a''
       (snd (submit_async ''a'' (new_job job_b (new_job job_a one_slot_engine)))))"

definition engine_b_cancelled :: engine where
  "engine_b_cancelled = lifecycle 1 ''b'' (snd (submit_async ''b'' engine_a_cancelled))"

definition engine_a_stuck :: engine where
  "engine_a_stuck = lifecycle 2 ''a'' (snd (submit_async ''a'' (new_job job_a one_slot_engine)))"

definition engine_x_run :: engine where
  "engine_x_run = lifecycle 1 ''x'' (snd (submit_async ''x'' (new_job job_x one_slot_engine)))"

section \<open>Evaluation\<close>

text \<open>The defining equations, for evaluating the model on concrete jobs and engines.\<close>

lemmas fixture_defs = one_slot_engine_def job_s_def job_d_def job_a_def job_b_def job_r_def
  job_t_def job_x_def job_p_def square_def raise_err_def Engine_init_def
  setup_by_setting_def default_setting_def Job_init_def JobFuture_init_def
  add_done_callback_def add_error_callback_def new_job_def engine_s_pending_def
  engine_s_done_def engine_s_twice_def engine_a_cancelled_def engine_b_cancelled_def
  engine_a_stuck_def engine_x_run_def job_view_def calls_def

lemmas method_defs = acquire_def runnable_def has_resource_def consume_resource_def
  release_resource_def Job_has_resource_def DaskJob_has_resource_def Job_consume_resource_def
  DaskJob_consume_resource_def Job_release_resource_def DaskJob_release_resource_def
  store_def get_job_by_id_def terminal_def resolve_dependencies_def on_finish_def
  clear_context_def task_cancel_def Job_cancel_def DaskJob_cancel_def cancel_def
  Job_result_def Job_exception_def JobFuture_result_def JobFuture_exception_def
  set_result_def set_exception_def resolve_arg_def resolve_args_def emit_def rerun_def
  on_done_def on_failed_def run_def run_start_def set_task_def end_task_def
  wait_and_run_poll_def wait_and_run_failed_def wait_and_run_resume_def
  wait_and_run_wake_def step_def submit_async_def Engine_cancel_def with_status_def
  cancel_all_def join_def exception_value_def wait_run_def task_ended_def submit_def
  serialization_def resolved_def upstream_done_def resolved_args_def Let_def

section \<open>Resource acquisition\<close>

lemma Job_consume_resource_bound:
  "engine_bound j \<Longrightarrow>
   Job_consume_resource e j =
     (True, e\<lparr>resource := (resource e)\<lparr>n_job := slots_dec (n_job (resource e))\<rparr>\<rparr>)"
  by (simp add: Job_consume_resource_def)

lemma runnable_has_resource: "runnable e j \<Longrightarrow> engine_bound j \<and> has_resource e j"
  by (auto simp: runnable_def split: if_splits option.splits)

text \<open>
  C4.  Acquisition, the guard of the scheduler's loop, never over-consumes.  When it
  returns true every class the job needs had a free slot (the total class for every
  job, the cluster class as well for a cluster job) and exactly these counters went
  down by one; when it returns false the engine, and so every counter, is unchanged.
  So when one of the classes the job needs has no free slot, acquisition returns
  false and no slot of any class is taken.
\<close>

theorem acquire_all_or_nothing:
  assumes "acquire e j = (ok, e')"
  shows "(if ok then
            slots_pos (n_job (resource e)) \<and>
            n_job (resource e') = slots_dec (n_job (resource e)) \<and>
            n_thread (resource e') = n_thread (resource e) \<and>
            n_process (resource e') = n_process (resource e) \<and>
            (case kind j of
               BaseJob \<Rightarrow> n_dask (resource e') = n_dask (resource e)
             | DaskJob \<Rightarrow>
                 slots_pos (n_dask (resource e)) \<and>
                 n_dask (resource e') = slots_dec (n_dask (resource e)))
          else e' = e) \<and>
         (\<not> slots_pos (n_job (resource e)) \<or>
          kind j = DaskJob \<and> \<not> slots_pos (n_dask (resource e)) \<longrightarrow>
          \<not> ok \<and> e' = e)"
proof (cases "runnable e j")
  case False
  with assms show ?thesis by (auto simp: acquire_def)
next
  case True
  then have b: "engine_bound j" and h: "has_resource e j"
    using runnable_has_resource by blast+
  show ?thesis
  proof (cases "kind j")
    case BaseJob
    with True b h assms show ?thesis
      by (auto simp: acquire_def consume_resource_def has_resource_def
          Job_has_resource_def Job_consume_resource_def)
  next
    case DaskJob
    with True b h assms show ?thesis
      by (auto simp: acquire_def consume_resource_def has_resource_def
          DaskJob_has_resource_def DaskJob_consume_resource_def
          Job_has_resource_def Job_consume_resource_def)
  qed
qed

theorem acquire_all_or_nothing_witness:
  "fst (acquire cluster_engine cluster_job) \<and>
   n_job (resource (snd (acquire cluster_engine cluster_job))) = Slots 1 \<and>
   n_dask (resource (snd (acquire cluster_engine cluster_job))) = Slots 0 \<and>
   acquire (snd (acquire cluster_engine cluster_job)) cluster_job =
     (False, snd (acquire cluster_engine cluster_job))"
proof -
  obtain e1 where a: "acquire cluster_engine cluster_job = (True, e1)"
    by (simp add: acquire_def runnable_def has_resource_def consume_resource_def
        Job_has_resource_def DaskJob_has_resource_def Job_consume_resource_def
        DaskJob_consume_resource_def cluster_engine_def cluster_job_def Engine_init_def
        setup_by_setting_def Job_init_def)
  have r: "resource cluster_engine =
      \<lparr> n_thread = Unbounded, n_process = Unbounded, n_dask = Slots 1, n_job = Slots 2 \<rparr>"
    by (simp add: cluster_engine_def Engine_init_def setup_by_setting_def)
  have k: "kind cluster_job = DaskJob"
    by (simp add: cluster_job_def Job_init_def)
  from acquire_all_or_nothing [OF a] r k
  have c: "n_job (resource e1) = Slots 1" "n_dask (resource e1) = Slots 0"
    by simp_all
  obtain ok e2 where b: "acquire e1 cluster_job = (ok, e2)"
    by fastforce
  have "\<not> ok"
    using acquire_all_or_nothing [OF b] k c by auto
  with acquire_all_or_nothing [OF b] have "e2 = e1" by simp
  with a b c \<open>\<not> ok\<close> show ?thesis by simp
qed

section \<open>The ledger after an upstream cancellation\<close>

text \<open>
  C2.  The ledger invariant fails on the code.  On an engine with one total slot,
  \<open>job_a\<close> is submitted and cancelled while it is pending, and \<open>job_b\<close>, which takes
  the future of \<open>job_a\<close> as its argument, is submitted.  The task of \<open>job_b\<close> takes
  the slot, finds its upstream cancelled while it resolves its arguments and cancels
  itself; \<^verbatim>\<open>cancel\<close> sees the status \<^verbatim>\<open>pending\<close> and releases nothing.  Both jobs
  are terminal, no job is pending or running, and the counter stays at 0 of 1, also
  after \<^verbatim>\<open>cancel_all\<close>.
\<close>

theorem upstream_cancel_leaks_slot:
  "n_job (resource one_slot_engine) = Slots 1 \<and>
   n_job (resource engine_a_cancelled) = Slots 1 \<and>
   job_view status ''a'' engine_b_cancelled = Some Cancelled \<and>
   job_view status ''b'' engine_b_cancelled = Some Cancelled \<and>
   with_status Pending engine_b_cancelled = [] \<and>
   with_status Running engine_b_cancelled = [] \<and>
   n_job (resource engine_b_cancelled) = Slots 0 \<and>
   n_job (resource (cancel_all engine_b_cancelled)) = Slots 0"
  by (simp add: fixture_defs method_defs eval_nat_numeral)

section \<open>The derived condition\<close>

lemma set_future_ids: "set (future_ids xs) = {i. VFuture i \<in> set xs}"
  by (induction xs rule: future_ids.induct) auto

text \<open>
  C6, as the code has it.  Every emission (\<^verbatim>\<open>emit\<close> calls \<^verbatim>\<open>resolve_dependencies\<close>
  each time, from \<^verbatim>\<open>submit_async\<close> and from \<^verbatim>\<open>rerun\<close> alike) derives \<open>AfterOthers\<close>
  over exactly the job ids of the futures the job holds among its arguments at that
  moment, and installs it when the job has no condition or conjoins it, as
  \<open>AllSatisfied\<close>, with the condition the job has at that moment.  Only a job that
  holds no future among its arguments keeps its condition as it is.
\<close>

theorem emit_derives_condition:
  "condition (resolve_dependencies j) =
     (let ids = future_ids (args j @ map snd (kwargs j)) in
      if ids = [] then condition j
      else (case condition j of
              None \<Rightarrow> Some (AfterOthers ids)
            | Some c \<Rightarrow> Some (AllSatisfied [c, AfterOthers ids]))) \<and>
   dep_job_ids (resolve_dependencies j) = future_ids (args j @ map snd (kwargs j)) \<and>
   set (future_ids (args j @ map snd (kwargs j))) =
     {i. VFuture i \<in> set (args j) \<union> snd ` set (kwargs j)} \<and>
   (\<exists>e1 j1. rerun False e j = Inr (e1, j1) \<and>
      condition j1 = condition (resolve_dependencies j)) \<and>
   (\<exists>e1 j1. submit_async (id_job j) (new_job j e) = (None, e1) \<and>
      heap e1 (id_job j) = Some j1 \<and> condition j1 = condition (resolve_dependencies j))"
  by (auto simp: resolve_dependencies_def Let_def set_future_ids rerun_def emit_def
      submit_async_def new_job_def store_def split: option.splits)

text \<open>
  C6 as stated fails: \<open>job_b\<close> is submitted, cancelled while it is pending and
  submitted again.  Its arguments still hold the future, and the second emission
  conjoins a second \<open>AfterOthers\<close> node.
\<close>

theorem second_after_others_counterexample:
  "job_view condition ''b''
     (snd (submit_async ''b'' (snd (Engine_cancel ''b''
        (snd (submit_async ''b'' (new_job job_b (new_job job_a one_slot_engine)))))))) =
   Some (Some (AllSatisfied [AfterOthers [''a''], AfterOthers [''a'']]))"
  by (simp add: fixture_defs method_defs)

section \<open>Reading a result\<close>

text \<open>
  C7, as the code has it.  The status check is in \<^verbatim>\<open>Job.result\<close>: it raises
  \<^verbatim>\<open>InvalidStateError\<close> unless the status is \<^verbatim>\<open>done\<close> and returns the stored value
  when it is.  \<^verbatim>\<open>JobFuture.result\<close> has no check: it returns the stored value
  whatever the job's status, and that value is \<^verbatim>\<open>None\<close> on a fresh future.
\<close>

theorem result_check_is_on_job:
  "Job_result j =
     (if status j = Done then Inr (fut_result (future j)) else Inl InvalidStateError) \<and>
   JobFuture_result f = fut_result f \<and>
   JobFuture_result (JobFuture_init i) = VNone"
  by (simp add: Job_result_def JobFuture_result_def JobFuture_init_def)

text \<open>
  C7 as stated fails: \<open>job_s\<close> is pending, its task has not run yet, and
  \<^verbatim>\<open>result()\<close> on its future returns the unset placeholder \<^verbatim>\<open>None\<close>.
\<close>

theorem future_result_unchecked_counterexample:
  "job_view status ''s'' engine_s_pending = Some Pending \<and>
   job_view (JobFuture_result \<circ> future) ''s'' engine_s_pending = Some VNone \<and>
   job_view Job_result ''s'' engine_s_pending = Some (Inl InvalidStateError)"
  by (simp add: fixture_defs method_defs)

section \<open>Cancelling a pending job\<close>

text \<open>
  \<^verbatim>\<open>cancel\<close> on a pending job whose lifecycle task exists does not raise: it cancels
  the task, sets the status to \<^verbatim>\<open>cancelled\<close> and leaves the resource counters (and
  the callback log) as they are.
\<close>

lemma cancel_pending_with_task:
  assumes "status j = Pending" and "task j = Some t"
  shows "cancel e j = Inr (task_cancel t e, j\<lparr>status := Cancelled\<rparr>) \<and>
         resource (task_cancel t e) = resource e \<and> fired (task_cancel t e) = fired e"
  using assms
  by (auto simp: cancel_def DaskJob_cancel_def Job_cancel_def task_cancel_def
      split: job_kind.splits task_state.splits)

lemma cancel_pending_with_task_example:
  "fst (Engine_cancel ''s'' engine_s_pending) = None \<and>
   job_view status ''s'' (snd (Engine_cancel ''s'' engine_s_pending)) = Some Cancelled \<and>
   resource (snd (Engine_cancel ''s'' engine_s_pending)) = resource engine_s_pending"
proof -
  obtain j where h: "heap engine_s_pending ''s'' = Some j"
    and s: "status j = Pending" and t: "task j = Some 0"
    by (simp add: fixture_defs method_defs)
  from cancel_pending_with_task [OF s t, of engine_s_pending] h
  show ?thesis
    by (simp add: Engine_cancel_def job_view_def store_def)
qed

text \<open>
  C8.  The claim fails on the code where the lifecycle task does not exist.
  \<^verbatim>\<open>cancel\<close> starts with \<^verbatim>\<open>self.task.cancel()\<close>; on a job whose \<^verbatim>\<open>task\<close> is \<^verbatim>\<open>None\<close>
  this raises \<^verbatim>\<open>AttributeError\<close> before the status is looked at, whatever the
  status and the class of the job, and the job stays as it is.
\<close>

theorem cancel_without_task_raises:
  assumes "task j = None"
  shows "cancel e j = Inl AttributeError \<and> Engine_cancel i (store i j e) =
           (Some AttributeError, store i j e)"
  using assms
  by (simp add: cancel_def DaskJob_cancel_def Job_cancel_def Engine_cancel_def store_def
      split: job_kind.splits)

text \<open>
  The copy of the pending \<open>job_s\<close> that serialization gives back is pending and has no
  task.
\<close>

theorem cancel_without_task_raises_witness:
  "job_view (status \<circ> serialization) ''s'' engine_s_pending = Some Pending \<and>
   job_view (task \<circ> serialization) ''s'' engine_s_pending = Some None \<and>
   job_view (cancel engine_s_pending \<circ> serialization) ''s'' engine_s_pending =
     Some (Inl AttributeError)"
proof -
  obtain j where h: "heap engine_s_pending ''s'' = Some j" and s: "status j = Pending"
    by (simp add: fixture_defs method_defs)
  have t: "task (serialization j) = None"
    by (simp add: serialization_def)
  from cancel_without_task_raises [OF t, of engine_s_pending] h s t
  show ?thesis
    by (simp add: job_view_def serialization_def)
qed

section \<open>The future of the synchronous submit\<close>

lemma emit_pending:
  "status j = Pending \<Longrightarrow>
   \<exists>e1 j1. emit e j = Inr (e1, j1) \<and> task j1 = Some (length (tasks e))"
  by (simp add: emit_def Let_def)

lemma submit_async_emits:
  assumes "heap e i = Some j"
  shows "\<exists>e1 j1 t. submit_async i e = (None, e1) \<and> heap e1 i = Some j1 \<and> task j1 = Some t"
proof -
  define j0 where
    "j0 = (if status j = Created then j\<lparr>engine_bound := True, status := Pending\<rparr>
           else j\<lparr>status := Pending\<rparr>)"
  define e0 where "e0 = (if status j = Created then e\<lparr>jobs := jobs e @ [i]\<rparr> else e)"
  have "status j0 = Pending" by (simp add: j0_def)
  from emit_pending [OF this, of e0] obtain e1 j1
    where em: "emit e0 j0 = Inr (e1, j1)" and t: "task j1 = Some (length (tasks e0))"
    by blast
  have "submit_async i e = (None, store i j1 e1)"
    using assms em by (auto simp: submit_async_def j0_def e0_def)
  with t show ?thesis by (auto simp: store_def)
qed

lemma wait_run_returns:
  "wait_run j =
     Inr (if status j = Done then fut_result (future j)
          else exception_value (fut_exception (future j)))"
  by (simp add: wait_run_def Job_result_def Job_exception_def JobFuture_result_def
      JobFuture_exception_def)

text \<open>
  C9.  Whenever the future returned by \<^verbatim>\<open>Engine.submit\<close> resolves, it resolves to
  a value and raises nothing: the stored result when the job is \<^verbatim>\<open>done\<close>, and
  otherwise (failed, cancelled, or waiting for a retry) the job's exception object as
  a value, \<^verbatim>\<open>None\<close> when no exception was recorded.  The coroutine \<^verbatim>\<open>wait_run\<close>
  behind that future returns such a value in whatever state it finds the job.
\<close>

theorem submit_future_never_raises:
  assumes "submit n i e = Some (r, e')"
  shows "(\<exists>j'. heap e' i = Some j' \<and>
            r = Inr (if status j' = Done then fut_result (future j')
                     else exception_value (fut_exception (future j')))) \<and>
         (\<forall>j. wait_run j =
            Inr (if status j = Done then fut_result (future j)
                 else exception_value (fut_exception (future j))))"
proof (cases "heap e i")
  case None
  with assms show ?thesis by (simp add: submit_def submit_async_def)
next
  case (Some j)
  from submit_async_emits [OF Some] obtain e1 j1 t
    where s: "submit_async i e = (None, e1)" "heap e1 i = Some j1" "task j1 = Some t"
    by blast
  with assms show ?thesis
    by (auto simp: submit_def join_def wait_run_returns split: option.splits)
qed

text \<open>
  \<open>job_b\<close>, whose upstream was cancelled, ends \<^verbatim>\<open>cancelled\<close> with no exception
  recorded: its future resolves to \<^verbatim>\<open>None\<close>.  \<open>job_a\<close> raises: \<^verbatim>\<open>on_failed\<close> itself
  raises before it records the exception, the task ends, the job is left
  \<^verbatim>\<open>running\<close>, and the future resolves to \<^verbatim>\<open>None\<close> as well.  For a job that is
  \<^verbatim>\<open>failed\<close> with an exception recorded, \<^verbatim>\<open>wait_run\<close> returns that exception.
\<close>

theorem submit_future_never_raises_witness:
  "map_option fst (submit 1 ''b'' engine_a_cancelled) = Some (Inr VNone) \<and>
   job_view status ''b'' engine_b_cancelled = Some Cancelled \<and>
   map_option fst (submit 2 ''a'' (new_job job_a one_slot_engine)) = Some (Inr VNone) \<and>
   job_view status ''a'' engine_a_stuck = Some Running \<and>
   wait_run (job_x\<lparr>status := Failed\<rparr>) = Inr (VExc (ValueError ''test''))"
proof -
  have "\<exists>r e'. submit 1 ''b'' engine_a_cancelled = Some (r, e') \<and>
          job_view status ''b'' e' = Some Cancelled \<and>
          job_view (fut_exception \<circ> future) ''b'' e' = Some None"
    by (simp add: fixture_defs method_defs eval_nat_numeral)
  then obtain q d' where b:
    "submit 1 ''b'' engine_a_cancelled = Some (q, d')"
    "job_view status ''b'' d' = Some Cancelled"
    "job_view (fut_exception \<circ> future) ''b'' d' = Some None"
    by blast
  from submit_future_never_raises [OF b(1)] b(2,3)
  have rb: "q = Inr VNone"
    by (auto simp: job_view_def exception_value_def)
  have "\<exists>r e'. submit 2 ''a'' (new_job job_a one_slot_engine) = Some (r, e') \<and>
          job_view status ''a'' e' = Some Running \<and>
          job_view (fut_exception \<circ> future) ''a'' e' = Some None"
    by (simp add: fixture_defs method_defs eval_nat_numeral)
  then obtain r e' where a:
    "submit 2 ''a'' (new_job job_a one_slot_engine) = Some (r, e')"
    "job_view status ''a'' e' = Some Running"
    "job_view (fut_exception \<circ> future) ''a'' e' = Some None"
    by blast
  from submit_future_never_raises [OF a(1)] a(2,3)
  have ra: "r = Inr VNone"
    by (auto simp: job_view_def exception_value_def)
  from submit_future_never_raises [OF b(1)]
  have w: "wait_run (job_x\<lparr>status := Failed\<rparr>) = Inr (VExc (ValueError ''test''))"
    by (simp add: fixture_defs set_exception_def exception_value_def)
  have s: "job_view status ''b'' engine_b_cancelled = Some Cancelled"
    "job_view status ''a'' engine_a_stuck = Some Running"
    by (simp_all add: fixture_defs method_defs eval_nat_numeral)
  from a(1) b(1) ra rb w s show ?thesis by simp
qed

section \<open>What the job methods leave unchanged\<close>

text \<open>
  The methods of a job touch the resource counters, the task table, the callback log
  and the job itself; they never touch another job object, the registry or the
  engine's \<^verbatim>\<open>print_traceback\<close>.  Only \<^verbatim>\<open>on_failed\<close> changes \<^verbatim>\<open>retry_remain\<close> and
  the stored exception, and only \<^verbatim>\<open>on_done\<close> the stored result.
\<close>

lemma on_finish_frame:
  "on_finish s e j = (e1, j1) \<Longrightarrow>
   heap e1 = heap e \<and> fired e1 = fired e \<and> jobs e1 = jobs e \<and> tasks e1 = tasks e \<and>
   print_traceback e1 = print_traceback e \<and> j1 = j\<lparr>status := s\<rparr>"
  by (auto simp: on_finish_def Let_def release_resource_def Job_release_resource_def
      DaskJob_release_resource_def split: job_kind.splits if_splits prod.splits)

lemma task_cancel_frame:
  "heap (task_cancel t e) = heap e \<and> fired (task_cancel t e) = fired e \<and>
   jobs (task_cancel t e) = jobs e \<and> resource (task_cancel t e) = resource e \<and>
   print_traceback (task_cancel t e) = print_traceback e"
  by (simp add: task_cancel_def split: task_state.splits)

lemma cancel_frame:
  assumes "cancel e j = Inr (e1, j1)"
  shows "heap e1 = heap e \<and> fired e1 = fired e \<and> jobs e1 = jobs e \<and>
         print_traceback e1 = print_traceback e \<and>
         retry_remain j1 = retry_remain j \<and> retries j1 = retries j \<and> future j1 = future j"
proof -
  from assms obtain t where t: "task j = Some t" and c: "Job_cancel e j = Inr (e1, j1)"
    by (auto simp: cancel_def DaskJob_cancel_def Job_cancel_def
        split: job_kind.splits if_splits option.splits)
  show ?thesis
  proof (cases "status j = Running")
    case True
    with c t have "on_finish Cancelled (task_cancel t e) (clear_context j) = (e1, j1)"
      by (simp add: Job_cancel_def Let_def)
    from on_finish_frame [OF this] show ?thesis
      by (simp add: task_cancel_frame clear_context_def split: job_kind.splits)
  next
    case False
    with c t show ?thesis
      by (auto simp: Job_cancel_def Let_def task_cancel_frame split: if_splits)
  qed
qed

lemma resolve_arg_frame:
  assumes "resolve_arg e j a = (r, e1, j1)"
  shows "heap e1 = heap e \<and> fired e1 = fired e \<and> jobs e1 = jobs e \<and>
         print_traceback e1 = print_traceback e \<and>
         retry_remain j1 = retry_remain j \<and> retries j1 = retries j \<and> future j1 = future j"
proof (cases "\<exists>x e2 j2. cancel e j = Inr (e2, j2) \<and> e1 = e2 \<and> j1 = j2")
  case True
  then show ?thesis using cancel_frame by blast
next
  case False
  with assms have "e1 = e \<and> j1 = j"
    by (auto simp: resolve_arg_def split: pyval.splits if_splits option.splits sum.splits)
  then show ?thesis by simp
qed

lemma resolve_list_frame:
  "resolve_list e j as = (r, e1, j1) \<Longrightarrow>
   heap e1 = heap e \<and> fired e1 = fired e \<and> jobs e1 = jobs e \<and>
   print_traceback e1 = print_traceback e \<and>
   retry_remain j1 = retry_remain j \<and> retries j1 = retries j \<and> future j1 = future j"
proof (induction as arbitrary: e j r e1 j1)
  case Nil
  then show ?case by simp
next
  case (Cons a as)
  obtain ra ea ja where a: "resolve_arg e j a = (ra, ea, ja)"
    by (cases "resolve_arg e j a") auto
  note fa = resolve_arg_frame [OF a]
  show ?case
  proof (cases ra)
    case (Inl x)
    with Cons.prems a fa show ?thesis by simp
  next
    case (Inr v)
    obtain rb eb jb where b: "resolve_list ea ja as = (rb, eb, jb)"
      by (cases "resolve_list ea ja as") auto
    from Cons.IH [OF b] fa have "heap eb = heap e \<and> fired eb = fired e \<and> jobs eb = jobs e \<and>
      print_traceback eb = print_traceback e \<and>
      retry_remain jb = retry_remain j \<and> retries jb = retries j \<and> future jb = future j"
      by simp
    moreover from Cons.prems a b Inr have "e1 = eb \<and> j1 = jb"
      by (auto split: sum.splits)
    ultimately show ?thesis by simp
  qed
qed

lemma resolve_items_frame:
  "resolve_items e j kas = (r, e1, j1) \<Longrightarrow>
   heap e1 = heap e \<and> fired e1 = fired e \<and> jobs e1 = jobs e \<and>
   print_traceback e1 = print_traceback e \<and>
   retry_remain j1 = retry_remain j \<and> retries j1 = retries j \<and> future j1 = future j"
proof (induction kas arbitrary: e j r e1 j1)
  case Nil
  then show ?case by simp
next
  case (Cons ka kas)
  obtain k a where ka: "ka = (k, a)" by (cases ka) auto
  obtain ra ea ja where a: "resolve_arg e j a = (ra, ea, ja)"
    by (cases "resolve_arg e j a") auto
  note fa = resolve_arg_frame [OF a]
  show ?case
  proof (cases ra)
    case (Inl x)
    with Cons.prems a fa ka show ?thesis by simp
  next
    case (Inr v)
    obtain rb eb jb where b: "resolve_items ea ja kas = (rb, eb, jb)"
      by (cases "resolve_items ea ja kas") auto
    from Cons.IH [OF b] fa have "heap eb = heap e \<and> fired eb = fired e \<and> jobs eb = jobs e \<and>
      print_traceback eb = print_traceback e \<and>
      retry_remain jb = retry_remain j \<and> retries jb = retries j \<and> future jb = future j"
      by simp
    moreover from Cons.prems a b Inr ka have "e1 = eb \<and> j1 = jb"
      by (auto split: sum.splits)
    ultimately show ?thesis by simp
  qed
qed

lemma resolve_args_frame:
  assumes "resolve_args e j = (r, e1, j1)"
  shows "heap e1 = heap e \<and> fired e1 = fired e \<and> jobs e1 = jobs e \<and>
         print_traceback e1 = print_traceback e \<and>
         retry_remain j1 = retry_remain j \<and> retries j1 = retries j \<and> future j1 = future j"
proof (cases "length (dep_job_ids j) > 0")
  case False
  with assms show ?thesis by (simp add: resolve_args_def)
next
  case True
  obtain ra ea ja where a: "resolve_list e j (args j) = (ra, ea, ja)"
    by (cases "resolve_list e j (args j)") auto
  note fa = resolve_list_frame [OF a]
  show ?thesis
  proof (cases ra)
    case (Inl x)
    with assms True a fa show ?thesis by (simp add: resolve_args_def)
  next
    case (Inr vs)
    obtain rb eb jb where b: "resolve_items ea ja (kwargs ja) = (rb, eb, jb)"
      by (cases "resolve_items ea ja (kwargs ja)") auto
    note fb = resolve_items_frame [OF b]
    from assms True a b Inr fa fb show ?thesis
      by (auto simp: resolve_args_def split: sum.splits)
  qed
qed

lemma fire_frame:
  "fire cs v e = (r, e1) \<Longrightarrow>
   heap e1 = heap e \<and> jobs e1 = jobs e \<and> tasks e1 = tasks e \<and> resource e1 = resource e \<and>
   print_traceback e1 = print_traceback e"
  by (induction cs arbitrary: e) (auto simp: Let_def split: option.splits)

lemma fire_until:
  "fire cs v e = (r, e1) \<Longrightarrow> fired e1 = fired e @ calls (until_raise cs v) v"
  by (induction cs arbitrary: e) (auto simp: Let_def calls_def split: option.splits)

lemma until_raise_all:
  "\<forall>c\<in>set cs. cb_call c v = None \<Longrightarrow> until_raise cs v = cs"
  by (induction cs) auto

lemma until_raise_prefix:
  "\<exists>rest. cs = until_raise cs v @ rest"
  by (induction cs) (auto split: option.splits)


lemma release_resource_frame:
  "release_resource e j = (ok, e1) \<Longrightarrow>
   heap e1 = heap e \<and> fired e1 = fired e \<and> jobs e1 = jobs e \<and> tasks e1 = tasks e \<and>
   print_traceback e1 = print_traceback e"
  by (auto simp: release_resource_def Job_release_resource_def DaskJob_release_resource_def
      Let_def split: job_kind.splits if_splits prod.splits)

lemma consume_resource_frame:
  "consume_resource e j = (ok, e1) \<Longrightarrow>
   heap e1 = heap e \<and> fired e1 = fired e \<and> jobs e1 = jobs e \<and> tasks e1 = tasks e \<and>
   print_traceback e1 = print_traceback e"
  by (auto simp: consume_resource_def Job_consume_resource_def DaskJob_consume_resource_def
      Let_def split: job_kind.splits if_splits prod.splits)

lemma acquire_frame:
  "acquire e j = (ok, e1) \<Longrightarrow>
   heap e1 = heap e \<and> fired e1 = fired e \<and> jobs e1 = jobs e \<and> tasks e1 = tasks e \<and>
   print_traceback e1 = print_traceback e"
  using consume_resource_frame by (auto simp: acquire_def split: if_splits)

lemma on_done_frame:
  assumes "on_done v e j = (r, e1, j1)"
  shows "heap e1 = heap e \<and> jobs e1 = jobs e \<and> tasks e1 = tasks e \<and>
         print_traceback e1 = print_traceback e \<and>
         retry_remain j1 = retry_remain j \<and> retries j1 = retries j \<and>
         engine_bound j1 = engine_bound j \<and>
         fut_result (future j1) = v \<and> fut_exception (future j1) = fut_exception (future j) \<and>
         fired e1 = fired e @ calls (until_raise (done_callbacks (future j)) v) v \<and>
         (r = None \<longrightarrow> status j1 = Done)"
proof -
  obtain rf ef where f: "fire (done_callbacks (future j)) v e = (rf, ef)"
    by (cases "fire (done_callbacks (future j)) v e") auto
  note ff = fire_frame [OF f] fire_until [OF f]
  show ?thesis
  proof (cases rf)
    case (Some x)
    with assms f ff show ?thesis
      by (auto simp: on_done_def Let_def set_result_def)
  next
    case None
    obtain e2 j2 where o: "on_finish Done ef (j\<lparr>future := set_result v (future j)\<rparr>) = (e2, j2)"
      by (cases "on_finish Done ef (j\<lparr>future := set_result v (future j)\<rparr>)") auto
    from assms f None o have "r = None \<and> e1 = e2 \<and> j1 = j2"
      by (auto simp: on_done_def Let_def set_result_def)
    with on_finish_frame [OF o] ff show ?thesis
      by (auto simp: set_result_def)
  qed
qed

lemma on_failed_no_attribute:
  "print_traceback e = None \<Longrightarrow>
   on_failed x e j = (Inl (if engine_bound j then AttributeError else AssertionError), e, j)"
  by (simp add: on_failed_def)


lemma emit_frame:
  "emit e j = Inr (e1, j1) \<Longrightarrow>
   heap e1 = heap e \<and> fired e1 = fired e \<and> jobs e1 = jobs e \<and> resource e1 = resource e \<and>
   print_traceback e1 = print_traceback e \<and>
   retry_remain j1 = retry_remain j \<and> retries j1 = retries j \<and>
   future j1 = future j"
  by (auto simp: emit_def Let_def resolve_dependencies_def split: if_splits option.splits)

lemma rerun_frame:
  "rerun b e j = Inr (e1, j1) \<Longrightarrow>
   heap e1 = heap e \<and> fired e1 = fired e \<and> jobs e1 = jobs e \<and> resource e1 = resource e \<and>
   print_traceback e1 = print_traceback e \<and>
   retry_remain j1 = retry_remain j \<and> retries j1 = retries j \<and>
   future j1 = future j"
  using emit_frame [of e "j\<lparr>status := Pending\<rparr>" e1 j1]
  by (auto simp: rerun_def split: if_splits)

section \<open>What a step of the loop does to the job objects\<close>



lemma kept_job_same:
  "retries j2 = retries j \<Longrightarrow> retry_remain j2 = retry_remain j \<Longrightarrow>
   fut_exception (future j2) = fut_exception (future j) \<Longrightarrow> kept_job pt j j2"
  by (simp add: kept_job_def)

lemma set_task_frame:
  "heap (set_task t s e) = heap e \<and> fired (set_task t s e) = fired e \<and>
   jobs (set_task t s e) = jobs e \<and> resource (set_task t s e) = resource e \<and>
   print_traceback (set_task t s e) = print_traceback e"
  by (simp add: set_task_def)

lemma end_task_frame:
  "heap (end_task t s e) = heap e \<and> fired (end_task t s e) = fired e \<and>
   jobs (end_task t s e) = jobs e \<and> resource (end_task t s e) = resource e \<and>
   print_traceback (end_task t s e) = print_traceback e"
  by (simp add: end_task_def set_task_frame)

lemma store_frame:
  "heap (store k j e) = (heap e)(k \<mapsto> j) \<and> fired (store k j e) = fired e \<and>
   jobs (store k j e) = jobs e \<and> resource (store k j e) = resource e \<and>
   tasks (store k j e) = tasks e \<and> print_traceback (store k j e) = print_traceback e"
  by (simp add: store_def)

lemma poll_shape:
  "(heap (wait_and_run_poll t e) = heap e \<or>
    (\<exists>k jk j2. heap e k = Some jk \<and> heap (wait_and_run_poll t e) = (heap e)(k \<mapsto> j2) \<and>
       kept_job (print_traceback e) jk j2)) \<and>
   fired (wait_and_run_poll t e) = fired e \<and>
   print_traceback (wait_and_run_poll t e) = print_traceback e"
proof (cases "heap e (t_job (tasks e ! t))")
  case None
  then show ?thesis by (simp add: wait_and_run_poll_def)
next
  case (Some jk)
  obtain ok ea where a: "acquire e jk = (ok, ea)" by (cases "acquire e jk") auto
  note fa = acquire_frame [OF a]
  show ?thesis
  proof (cases ok)
    case False
    with Some a fa show ?thesis by (simp add: wait_and_run_poll_def)
  next
    case True
    obtain r e2 j2 where ra: "resolve_args ea jk = (r, e2, j2)"
      by (cases "resolve_args ea jk") auto
    note fr = resolve_args_frame [OF ra]
    define j3 where "j3 = (case r of None \<Rightarrow> run_start (j2\<lparr>status := Running\<rparr>) | Some x \<Rightarrow> j2)"
    have j3: "retry_remain j3 = retry_remain j2 \<and> retries j3 = retries j2 \<and>
        future j3 = future j2"
      by (simp add: j3_def run_start_def split: option.splits job_kind.splits)
    with fr have k: "kept_job (print_traceback e) jk j3"
      by (simp add: kept_job_same)
    from Some a True ra
    have "heap (wait_and_run_poll t e) = heap (store (t_job (tasks e ! t)) j3 e2) \<and>
          fired (wait_and_run_poll t e) = fired e2 \<and>
          print_traceback (wait_and_run_poll t e) = print_traceback e2"
      by (cases r)
         (simp_all add: wait_and_run_poll_def set_task_frame end_task_frame store_frame j3_def)
    with fa fr Some k show ?thesis
      by (auto simp: store_frame)
  qed
qed



lemma wake_shape:
  "(heap (wait_and_run_wake t e) = heap e \<or>
    (\<exists>k jk j2. heap e k = Some jk \<and> heap (wait_and_run_wake t e) = (heap e)(k \<mapsto> j2) \<and>
       kept_job (print_traceback e) jk j2)) \<and>
   fired (wait_and_run_wake t e) = fired e \<and>
   print_traceback (wait_and_run_wake t e) = print_traceback e"
proof (cases "heap e (t_job (tasks e ! t))")
  case None
  then show ?thesis by (simp add: wait_and_run_wake_def)
next
  case (Some jk)
  show ?thesis
  proof (cases "rerun False e jk")
    case (Inl x)
    with Some show ?thesis by (simp add: wait_and_run_wake_def end_task_frame)
  next
    case (Inr p)
    obtain e1 j1 where p: "p = (e1, j1)" by (cases p) auto
    from rerun_frame [OF Inr [unfolded p]]
    have "kept_job (print_traceback e) jk j1" by (simp add: kept_job_same)
    with rerun_frame [OF Inr [unfolded p]] Some Inr p show ?thesis
      by (auto simp: wait_and_run_wake_def end_task_frame store_frame)
  qed
qed



lemma submit_async_fired:
  "fired (snd (submit_async i e)) = fired e \<and>
   print_traceback (snd (submit_async i e)) = print_traceback e"
  by (auto simp: submit_async_def emit_def Let_def store_def split: option.splits)

lemma Engine_cancel_shape:
  "(heap (snd (Engine_cancel i e)) = heap e \<or>
    (\<exists>jk j2. heap e i = Some jk \<and> heap (snd (Engine_cancel i e)) = (heap e)(i \<mapsto> j2) \<and>
       retry_remain j2 = retry_remain jk \<and> retries j2 = retries jk \<and>
       future j2 = future jk)) \<and>
   fired (snd (Engine_cancel i e)) = fired e \<and>
   jobs (snd (Engine_cancel i e)) = jobs e \<and>
   print_traceback (snd (Engine_cancel i e)) = print_traceback e"
proof (cases "heap e i")
  case None
  then show ?thesis by (simp add: Engine_cancel_def)
next
  case (Some jk)
  show ?thesis
  proof (cases "cancel e jk")
    case (Inl x)
    with Some show ?thesis by (simp add: Engine_cancel_def)
  next
    case (Inr p)
    obtain e1 j1 where p: "p = (e1, j1)" by (cases p) auto
    from cancel_frame [OF Inr [unfolded p]] Some Inr p show ?thesis
      by (auto simp: Engine_cancel_def store_def)
  qed
qed





lemma fold_cancel_fired:
  "fired (fold (\<lambda>i e1. snd (Engine_cancel i e1)) is e) = fired e \<and>
   print_traceback (fold (\<lambda>i e1. snd (Engine_cancel i e1)) is e) = print_traceback e"
proof (induction "is" arbitrary: e)
  case Nil
  then show ?case by simp
next
  case (Cons i "is")
  from Cons.IH [of "snd (Engine_cancel i e)"] Engine_cancel_shape [of i e] show ?case
    by simp
qed



section \<open>A job that returns a value\<close>

lemma fire_none:
  "\<forall>c\<in>set cs. cb_call c v = None \<Longrightarrow> fire cs v e = (None, e\<lparr>fired := fired e @ calls cs v\<rparr>)"
  by (induction cs arbitrary: e) (auto simp: Let_def calls_def)

lemma slots_inc_dec: "slots_inc (slots_dec s) = s"
  by (cases s) auto

lemma resolve_arg_done:
  assumes "engine_bound j"
    and "\<forall>u\<in>set (future_ids [a]). upstream_done e u"
  shows "resolve_arg e j a = (Inr (resolved e a), e, j)"
  using assms
  by (cases a)
     (auto simp: resolve_arg_def resolved_def upstream_done_def Job_result_def
        JobFuture_result_def split: option.splits)

lemma future_ids_Cons:
  "set (future_ids (a # as)) = set (future_ids [a]) \<union> set (future_ids as)"
  by (cases a) auto

lemma resolve_list_done:
  assumes "engine_bound j"
  shows "\<forall>u\<in>set (future_ids as). upstream_done e u \<Longrightarrow>
         resolve_list e j as = (Inr (map (resolved e) as), e, j)"
proof (induction as)
  case Nil
  then show ?case by simp
next
  case (Cons a as)
  from Cons.prems have a: "\<forall>u\<in>set (future_ids [a]). upstream_done e u"
    and r: "\<forall>u\<in>set (future_ids as). upstream_done e u"
    by (auto simp: future_ids_Cons [of a as])
  from resolve_arg_done [OF assms a] Cons.IH [OF r] show ?case by simp
qed

lemma resolve_items_done:
  assumes "engine_bound j"
  shows "\<forall>u\<in>set (future_ids (map snd kas)). upstream_done e u \<Longrightarrow>
         resolve_items e j kas = (Inr (map (\<lambda>(k, a). (k, resolved e a)) kas), e, j)"
proof (induction kas)
  case Nil
  then show ?case by simp
next
  case (Cons ka kas)
  obtain k a where ka: "ka = (k, a)" by (cases ka) auto
  from Cons.prems ka have a: "\<forall>u\<in>set (future_ids [a]). upstream_done e u"
    and r: "\<forall>u\<in>set (future_ids (map snd kas)). upstream_done e u"
    by (auto simp: future_ids_Cons [of a "map snd kas"])
  from resolve_arg_done [OF assms a] Cons.IH [OF r] ka show ?case by simp
qed

lemma resolved_no_future:
  "future_ids as = [] \<Longrightarrow> map (resolved e) as = as"
  by (induction as rule: future_ids.induct) (auto simp: resolved_def)

lemma resolved_items_no_future:
  "future_ids (map snd kas) = [] \<Longrightarrow> map (\<lambda>(k, a). (k, resolved e a)) kas = kas"
proof (induction kas)
  case Nil
  then show ?case by simp
next
  case (Cons ka kas)
  obtain k a where ka: "ka = (k, a)" by (cases ka) auto
  with Cons show ?case by (cases a) (auto simp: resolved_def)
qed

lemma future_ids_append: "future_ids (xs @ ys) = future_ids xs @ future_ids ys"
  by (induction xs rule: future_ids.induct) auto

lemma resolve_args_done:
  assumes b: "engine_bound j"
    and d: "dep_job_ids j = future_ids (args j @ map snd (kwargs j))"
    and u: "\<forall>u\<in>set (future_ids (args j @ map snd (kwargs j))). upstream_done e u"
  shows "resolve_args e j = (None, e, resolved_args e j)"
proof (cases "dep_job_ids j = []")
  case True
  with d have "future_ids (args j) = []" "future_ids (map snd (kwargs j)) = []"
    by (simp_all add: future_ids_append)
  with True show ?thesis
    by (simp add: resolve_args_def resolved_args_def resolved_no_future
        resolved_items_no_future)
next
  case False
  from u have ua: "\<forall>u\<in>set (future_ids (args j)). upstream_done e u"
    and uk: "\<forall>u\<in>set (future_ids (map snd (kwargs j))). upstream_done e u"
    by (auto simp: future_ids_append)
  from False resolve_list_done [OF b ua] resolve_items_done [OF b uk] show ?thesis
    by (simp add: resolve_args_def resolved_args_def)
qed

lemma resolved_cong:
  assumes "\<forall>u\<in>set (future_ids as). get_job_by_id e' u = get_job_by_id e u"
  shows "map (resolved e') as = map (resolved e) as"
  using assms
  by (induction as rule: future_ids.induct) (auto simp: resolved_def)

lemma resolved_items_cong:
  assumes "\<forall>u\<in>set (future_ids (map snd kas)). get_job_by_id e' u = get_job_by_id e u"
  shows "map (\<lambda>(k, a). (k, resolved e' a)) kas = map (\<lambda>(k, a). (k, resolved e a)) kas"
  using assms
proof (induction kas)
  case Nil
  then show ?case by simp
next
  case (Cons ka kas)
  obtain k a where ka: "ka = (k, a)" by (cases ka) auto
  with Cons show ?case by (cases a) (auto simp: resolved_def)
qed

lemma run_cong:
  "kind a = kind b \<Longrightarrow> func a = func b \<Longrightarrow>
   args a = args b \<Longrightarrow> kwargs a = kwargs b \<Longrightarrow> run a = run b"
  by (simp add: run_def split: job_kind.splits)

text \<open>
  A job is submitted that is new (or terminal and already bound to the engine), on
  an engine with a free slot in every class the job needs; the upstream job of every
  future among its arguments is registered and done, and its own condition, if it
  has one, holds once it is submitted.  When \<^verbatim>\<open>run\<close> on the resolved arguments
  returns \<open>v\<close> and no done-callback raises on \<open>v\<close>, the future returned by
  \<^verbatim>\<open>Engine.submit\<close> resolves to \<open>v\<close> after two steps of the job's task, the job is
  \<^verbatim>\<open>done\<close> with \<open>v\<close> stored, the slots are back, and each done-callback was called
  once with \<open>v\<close>, in insertion order.
\<close>

lemma submit_run_value:
  assumes h: "heap e i = Some j" and wf: "id_job j = i"
    and fresh: "status j = Created \<or> terminal (status j) \<and> engine_bound j"
    and cond: "\<forall>c. condition j = Some c \<longrightarrow> satisfy (snd (submit_async i e)) c"
    and deps: "\<forall>u\<in>set (future_ids (args j @ map snd (kwargs j))). u \<noteq> i \<and> upstream_done e u"
    and slot: "slots_pos (n_job (resource e))"
     and dslot: "kind j = DaskJob \<longrightarrow> slots_pos (n_dask (resource e))"
    and ret: "run (resolved_args e j) = Inr v"
    and cbs: "\<forall>c\<in>set (done_callbacks (future j)). cb_call c v = None"
  shows "\<exists>e'. submit 2 i e = Some (Inr v, e') \<and>
           job_view status i e' = Some Done \<and>
           job_view (fut_result \<circ> future) i e' = Some v \<and>
           resource e' = resource e \<and>
           fired e' = fired e @ calls (done_callbacks (future j)) v"
proof -
  define ids where "ids = future_ids (args j @ map snd (kwargs j))"
  define t where "t = length (tasks e)"
  define j0 where "j0 = (if status j = Created
      then j\<lparr>engine_bound := True, status := Pending\<rparr> else j\<lparr>status := Pending\<rparr>)"
  define j1 where "j1 = (resolve_dependencies j0)\<lparr>task := Some t\<rparr>"
  define e1 where "e1 = e\<lparr>jobs := (if status j = Created then jobs e @ [i] else jobs e),
      tasks := tasks e @ [\<lparr>t_job = i, t_state = AtPoll\<rparr>], heap := (heap e)(i \<mapsto> j1)\<rparr>"
  have p1: "engine_bound j1" "status j1 = Pending" "dep_job_ids j1 = ids"
    "condition j1 =
       (if ids = [] then condition j
        else (case condition j of None \<Rightarrow> Some (AfterOthers ids)
              | Some c \<Rightarrow> Some (AllSatisfied [c, AfterOthers ids])))"
    "args j1 = args j" "kwargs j1 = kwargs j" "kind j1 = kind j" "future j1 = future j"
    "func j1 = func j" "task j1 = Some t"
    using fresh
    by (auto simp: j1_def j0_def resolve_dependencies_def Let_def ids_def
        split: option.splits)
  have s1: "submit_async i e = (None, e1)"
    using h wf
    by (auto simp: submit_async_def emit_def store_def Let_def e1_def j1_def j0_def t_def
        resolve_dependencies_def)
  have g: "\<forall>u\<in>set ids. get_job_by_id e1 u = get_job_by_id e u"
    using deps
    by (auto simp: ids_def e1_def get_job_by_id_def upstream_done_def split: option.splits)
  with deps have up: "\<forall>u\<in>set ids. upstream_done e1 u"
    by (simp add: ids_def upstream_done_def)
  have sat: "satisfy e1 (AfterOthers ids)"
    using up
    by (auto simp: list_all_iff upstream_done_def terminal_def split: option.splits)
  define e2 where "e2 = snd (consume_resource e1 j1)"
  have hr: "has_resource e1 j1"
    using slot dslot p1
    by (auto simp: has_resource_def Job_has_resource_def DaskJob_has_resource_def e1_def
        split: job_kind.splits)
  have "case condition j1 of None \<Rightarrow> True | Some c \<Rightarrow> satisfy e1 c"
    using sat cond s1 p1 by (auto split: option.splits)
  with hr p1 have "runnable e1 j1"
    by (auto simp: runnable_def split: option.splits)
  then have acq: "acquire e1 j1 = (True, e2)"
    using p1
    by (auto simp: acquire_def e2_def consume_resource_def
        Job_consume_resource_def DaskJob_consume_resource_def Let_def
        split: job_kind.splits)
  have tk: "tasks e2 = tasks e1" "heap e2 = heap e1" "fired e2 = fired e1" "jobs e2 = jobs e1"
    using consume_resource_frame [of e1 j1 "fst (consume_resource e1 j1)" e2]
    by (simp_all add: e2_def)
  have "get_job_by_id e2 = get_job_by_id e1"
    using tk by (simp add: get_job_by_id_def fun_eq_iff)
  with g have g2: "\<forall>u\<in>set ids. get_job_by_id e2 u = get_job_by_id e u"
    by simp
  with deps p1 have up2:
    "\<forall>u\<in>set (future_ids (args j1 @ map snd (kwargs j1))). upstream_done e2 u"
    by (simp add: ids_def upstream_done_def)
  have d1: "dep_job_ids j1 = future_ids (args j1 @ map snd (kwargs j1))"
    using p1 by (simp add: ids_def)
  have ra: "resolve_args e2 j1 = (None, e2, resolved_args e2 j1)"
    by (rule resolve_args_done [OF p1(1) d1 up2])
  have ga: "\<forall>u\<in>set (future_ids (args j)). get_job_by_id e2 u = get_job_by_id e u"
    and gk: "\<forall>u\<in>set (future_ids (map snd (kwargs j))). get_job_by_id e2 u = get_job_by_id e u"
    using g2 by (auto simp: ids_def future_ids_append)
  define j2 where "j2 = run_start ((resolved_args e2 j1)\<lparr>status := Running\<rparr>)"
  define e3 where "e3 = set_task t AtRun (store i j2 e2)"
  have st1: "step t e1 = e3"
    using acq ra
    by (simp add: step_def wait_and_run_poll_def e1_def t_def e3_def j2_def)
  have "run j2 = run (resolved_args e j)"
    using resolved_cong [OF ga] resolved_items_cong [OF gk] p1
    by (intro run_cong)
       (auto simp: j2_def run_start_def resolved_args_def split: job_kind.splits)
  with ret have jr: "run j2 = Inr v"
    by simp
  have fr: "future j2 = future j" "kind j2 = kind j" "engine_bound j2" "status j2 = Running"
    using p1 by (auto simp: j2_def run_start_def resolved_args_def split: job_kind.splits)
  have res2: "resource e2 = (resource e)\<lparr>n_job := slots_dec (n_job (resource e)),
      n_dask := (case kind j of BaseJob \<Rightarrow> n_dask (resource e)
                 | DaskJob \<Rightarrow> slots_dec (n_dask (resource e)))\<rparr>"
    using p1
    by (auto simp: e2_def e1_def consume_resource_def Job_consume_resource_def
        DaskJob_consume_resource_def Let_def split: job_kind.splits)
  define j4 where "j4 = j2\<lparr>future := set_result v (future j2), status := Done\<rparr>"
  define e4 where "e4 = e3\<lparr>fired := fired e @ calls (done_callbacks (future j)) v,
      resource := resource e, heap := (heap e3)(i \<mapsto> j4),
      tasks := (tasks e3)[t := \<lparr>t_job = i, t_state = Returned v\<rparr>]\<rparr>"
  have e3p: "t < length (tasks e3)" "tasks e3 ! t = \<lparr>t_job = i, t_state = AtRun\<rparr>"
    "heap e3 i = Some j2" "fired e3 = fired e" "resource e3 = resource e2"
    using tk by (simp_all add: e3_def set_task_def store_def e1_def t_def)
  have st2: "step t e3 = e4"
    using jr fr cbs res2 e3p
    by (cases "kind j")
       (simp_all add: step_def wait_and_run_resume_def e4_def j4_def
        store_def on_done_def set_result_def fire_none on_finish_def
        release_resource_def Job_release_resource_def DaskJob_release_resource_def
        end_task_def set_task_def Let_def slots_inc_dec)
  have e1p: "heap e1 i = Some j1" "t < length (tasks e1)" "t_state (tasks e1 ! t) = AtPoll"
    by (simp_all add: e1_def t_def)
  have e4p: "heap e4 i = Some j4" "t < length (tasks e4)"
    "t_state (tasks e4 ! t) = Returned v"
    using e3p by (simp_all add: e4_def)
  have "submit 2 i e = Some (Inr v, e4)"
    using s1 st1 st2 e1p e3p e4p p1
    by (simp add: submit_def join_def task_ended_def eval_nat_numeral wait_run_returns
        j4_def set_result_def)
  then show ?thesis
    by (auto simp: e4_def j4_def job_view_def set_result_def)
qed

text \<open>
  C1, as the code has it.  What the future resolves to is what \<^verbatim>\<open>run\<close> returns,
  and that depends on the class of the job: a cluster job returns what the callable
  returns on the resolved arguments, a job of the class \<^verbatim>\<open>Job\<close> itself returns
  \<^verbatim>\<open>None\<close> without calling the callable.  So, for a job submitted as above whose
  callable returns \<open>v\<close> on the resolved arguments, and with \<open>w\<close> being \<open>v\<close> for a
  cluster job and \<^verbatim>\<open>None\<close> for a job of the base class: when no done-callback raises
  on \<open>w\<close>, the future returned by \<^verbatim>\<open>Engine.submit\<close> resolves to \<open>w\<close> after two steps
  of the job's task, the job is \<^verbatim>\<open>done\<close> with \<open>w\<close> stored, the slots are back, and
  each done-callback was called once with \<open>w\<close>, in insertion order.
\<close>

theorem submit_value_return:
  assumes h: "heap e i = Some j" and wf: "id_job j = i"
    and fresh: "status j = Created \<or> terminal (status j) \<and> engine_bound j"
    and cond: "\<forall>c. condition j = Some c \<longrightarrow> satisfy (snd (submit_async i e)) c"
    and deps: "\<forall>u\<in>set (future_ids (args j @ map snd (kwargs j))). u \<noteq> i \<and> upstream_done e u"
    and slot: "slots_pos (n_job (resource e))"
    and dslot: "kind j = DaskJob \<longrightarrow> slots_pos (n_dask (resource e))"
    and ret: "func j (map (resolved e) (args j))
                (map (\<lambda>(k, a). (k, resolved e a)) (kwargs j)) = Inr v"
    and w: "w = (case kind j of DaskJob \<Rightarrow> v | BaseJob \<Rightarrow> VNone)"
    and cbs: "\<forall>c\<in>set (done_callbacks (future j)). cb_call c w = None"
  shows "\<exists>e'. submit 2 i e = Some (Inr w, e') \<and>
           job_view status i e' = Some Done \<and>
           job_view (fut_result \<circ> future) i e' = Some w \<and>
           resource e' = resource e \<and>
           fired e' = fired e @ calls (done_callbacks (future j)) w"
proof -
  from ret w have "run (resolved_args e j) = Inr w"
    by (simp add: run_def resolved_args_def split: job_kind.splits)
  from submit_run_value [OF h wf fresh cond deps slot dslot this cbs] show ?thesis .
qed

theorem submit_value_return_witness:
  "(\<exists>e'. submit 2 ''s'' (new_job job_d (new_job job_s one_slot_engine)) =
            Some (Inr (VInt 4), e') \<and>
          job_view status ''s'' e' = Some Done \<and> fired e' = [(''on_done'', VInt 4)]) \<and>
   (\<exists>e'. submit 2 ''d'' engine_s_done = Some (Inr (VInt 16), e') \<and>
          job_view status ''d'' e' = Some Done)"
proof -
  let ?e = "new_job job_d (new_job job_s one_slot_engine)"
  have "\<exists>j. heap ?e ''s'' = Some j \<and> id_job j = ''s'' \<and>
          status j = Created \<and> condition j = None \<and>
          future_ids (args j @ map snd (kwargs j)) = [] \<and>
          kind j = DaskJob \<and>
          func j (map (resolved ?e) (args j))
            (map (\<lambda>(k, a). (k, resolved ?e a)) (kwargs j)) = Inr (VInt 4) \<and>
          done_callbacks (future j) = [Callback ''on_done'' (\<lambda>v. None)]"
    by (simp add: fixture_defs method_defs)
  then obtain j where j: "heap ?e ''s'' = Some j" "id_job j = ''s''"
    "status j = Created" "condition j = None"
    "future_ids (args j @ map snd (kwargs j)) = []" "kind j = DaskJob"
    "func j (map (resolved ?e) (args j))
       (map (\<lambda>(k, a). (k, resolved ?e a)) (kwargs j)) = Inr (VInt 4)"
    and cb: "done_callbacks (future j) = [Callback ''on_done'' (\<lambda>v. None)]"
    by blast
  have r: "slots_pos (n_job (resource ?e))" "slots_pos (n_dask (resource ?e))" "fired ?e = []"
    by (simp_all add: fixture_defs)
  from submit_value_return [OF j(1,2) _ _ _ r(1) _ j(7), of "VInt 4"] j r cb
  have 1: "\<exists>e'. submit 2 ''s'' ?e = Some (Inr (VInt 4), e') \<and>
          job_view status ''s'' e' = Some Done \<and> fired e' = [(''on_done'', VInt 4)]"
    by (auto simp: calls_def)
  have "\<exists>j. heap engine_s_done ''d'' = Some j \<and> id_job j = ''d'' \<and>
          status j = Created \<and> condition j = None \<and>
          future_ids (args j @ map snd (kwargs j)) = [''s''] \<and>
          kind j = DaskJob \<and>
          func j (map (resolved engine_s_done) (args j))
            (map (\<lambda>(k, a). (k, resolved engine_s_done a)) (kwargs j)) = Inr (VInt 16) \<and>
          done_callbacks (future j) = []"
    by (simp add: fixture_defs method_defs eval_nat_numeral)
  then obtain d where d: "heap engine_s_done ''d'' = Some d" "id_job d = ''d''"
    "status d = Created" "condition d = None"
    "future_ids (args d @ map snd (kwargs d)) = [''s'']" "kind d = DaskJob"
    "func d (map (resolved engine_s_done) (args d))
       (map (\<lambda>(k, a). (k, resolved engine_s_done a)) (kwargs d)) = Inr (VInt 16)"
    and cd: "done_callbacks (future d) = []"
    by blast
  have rd: "slots_pos (n_job (resource engine_s_done))"
    "slots_pos (n_dask (resource engine_s_done))"
    "upstream_done engine_s_done ''s''"
    by (simp_all add: fixture_defs method_defs eval_nat_numeral)
  from submit_value_return [OF d(1,2) _ _ _ rd(1) _ d(7), of "VInt 16"] d rd cd
  have 2: "\<exists>e'. submit 2 ''d'' engine_s_done = Some (Inr (VInt 16), e') \<and>
          job_view status ''d'' e' = Some Done"
    by auto
  from 1 2 show ?thesis by blast
qed

text \<open>
  C1 as stated fails: \<open>job_p\<close> is a job of the class \<^verbatim>\<open>Job\<close> itself whose callable
  returns 4 on its argument 2.  It is submitted on a fresh engine and ends \<^verbatim>\<open>done\<close>,
  but its future resolves to \<^verbatim>\<open>None\<close>, not to 4.
\<close>

theorem base_job_resolves_to_none_counterexample:
  "kind job_p = BaseJob \<and>
   func job_p (args job_p) (kwargs job_p) = Inr (VInt 4) \<and>
   map_option fst (submit 2 ''p'' (new_job job_p one_slot_engine)) = Some (Inr VNone) \<and>
   map_option (job_view status ''p'' \<circ> snd) (submit 2 ''p'' (new_job job_p one_slot_engine)) =
     Some (Some Done)"
  by (simp add: fixture_defs method_defs eval_nat_numeral)

section \<open>The stored exception and the stored result\<close>




section \<open>The retry counter\<close>



section \<open>Callbacks\<close>

lemma failed_fired_no_attribute:
  "print_traceback e = None \<Longrightarrow> fired (wait_and_run_failed x t k e j) = fired e"
  by (simp add: wait_and_run_failed_def on_failed_no_attribute end_task_frame store_frame)

lemma resume_fired:
  assumes p: "print_traceback e = None"
    and h: "heap e (t_job (tasks e ! t)) = Some j"
    and r: "run j = Inr v"
  shows "fired (wait_and_run_resume t e) =
           fired e @ calls (until_raise (done_callbacks (future j)) v) v"
proof -
  obtain rd e1 j1 where d: "on_done v e j = (rd, e1, j1)"
    by (cases "on_done v e j") auto
  note fd = on_done_frame [OF d]
  show ?thesis
  proof (cases rd)
    case None
    with h r d fd show ?thesis
      by (simp add: wait_and_run_resume_def end_task_frame store_frame)
  next
    case (Some y)
    from fd p have "print_traceback e1 = None" by simp
    from failed_fired_no_attribute [OF this] h r d fd Some show ?thesis
      by (simp add: wait_and_run_resume_def)
  qed
qed

lemma step_ended: "task_ended t e \<Longrightarrow> step t e = e"
  by (auto simp: task_ended_def step_def split: task_state.splits)

text \<open>
  C3, as the code has it.  \<^verbatim>\<open>on_done\<close>, which runs each time \<^verbatim>\<open>run\<close> of a job has
  returned a value \<open>v\<close>, calls the done-callbacks of the job's future with \<open>v\<close> in
  insertion order (a callback is appended when it is added), each at most once, up to
  and including the first one that raises: every one of them exactly once when none
  raises.  On an engine without \<^verbatim>\<open>print_traceback\<close> these are all the calls that the
  step of a task makes whose \<^verbatim>\<open>run\<close> returned.  A poll, the wake-up after a retry
  sleep, a submit, a cancel and \<^verbatim>\<open>cancel_all\<close> call no callback, and a task that
  has ended, cancelled or not, does nothing any more.
\<close>

theorem done_callbacks_fire_per_completion:
  "fired (fst (snd (on_done v e j))) =
     fired e @ calls (until_raise (done_callbacks (future j)) v) v \<and>
   (\<exists>rest. done_callbacks (future j) = until_raise (done_callbacks (future j)) v @ rest) \<and>
   ((\<forall>c\<in>set (done_callbacks (future j)). cb_call c v = None) \<longrightarrow>
      until_raise (done_callbacks (future j)) v = done_callbacks (future j)) \<and>
   (print_traceback e = None \<and> t < length (tasks e) \<and> t_state (tasks e ! t) = AtRun \<and>
    heap e (t_job (tasks e ! t)) = Some j \<and> run j = Inr v \<longrightarrow>
      fired (step t e) = fired e @ calls (until_raise (done_callbacks (future j)) v) v) \<and>
   fired (wait_and_run_poll t e) = fired e \<and>
   fired (wait_and_run_wake t e) = fired e \<and>
   fired (snd (submit_async i e)) = fired e \<and>
   fired (snd (Engine_cancel i e)) = fired e \<and>
   fired (cancel_all e) = fired e \<and>
   (task_ended t e \<longrightarrow> step t e = e) \<and>
   done_callbacks (add_done_callback c f) = done_callbacks f @ [c] \<and>
   calls (cs @ [c]) v = calls cs v @ [(cb_name c, v)]"
proof -
  have "on_done v e j =
      (fst (on_done v e j), fst (snd (on_done v e j)), snd (snd (on_done v e j)))"
    by simp
  from on_done_frame [OF this]
  have 1: "fired (fst (snd (on_done v e j))) =
     fired e @ calls (until_raise (done_callbacks (future j)) v) v"
    by simp
  have 2: "\<exists>rest. done_callbacks (future j) = until_raise (done_callbacks (future j)) v @ rest"
    by (rule until_raise_prefix)
  have 3: "(\<forall>c\<in>set (done_callbacks (future j)). cb_call c v = None) \<longrightarrow>
      until_raise (done_callbacks (future j)) v = done_callbacks (future j)"
    using until_raise_all by blast
  have 4: "print_traceback e = None \<and> t < length (tasks e) \<and> t_state (tasks e ! t) = AtRun \<and>
    heap e (t_job (tasks e ! t)) = Some j \<and> run j = Inr v \<longrightarrow>
      fired (step t e) = fired e @ calls (until_raise (done_callbacks (future j)) v) v"
  proof
    assume a: "print_traceback e = None \<and> t < length (tasks e) \<and>
      t_state (tasks e ! t) = AtRun \<and> heap e (t_job (tasks e ! t)) = Some j \<and> run j = Inr v"
    then have "step t e = wait_and_run_resume t e"
      by (simp add: step_def)
    with resume_fired [of e t j v] a
    show "fired (step t e) = fired e @ calls (until_raise (done_callbacks (future j)) v) v"
      by simp
  qed
  have 5: "fired (wait_and_run_poll t e) = fired e" "fired (wait_and_run_wake t e) = fired e"
    "fired (snd (submit_async i e)) = fired e" "fired (snd (Engine_cancel i e)) = fired e"
    using poll_shape [of t e] wake_shape [of t e] submit_async_fired [of i e]
      Engine_cancel_shape [of i e]
    by simp_all
  have 6: "fired (cancel_all e) = fired e"
    using fold_cancel_fired [of "with_status Pending e @ with_status Running e" e]
    by (simp add: cancel_all_def del: fold_append)
  have 7: "task_ended t e \<longrightarrow> step t e = e"
    using step_ended by blast
  have 8: "done_callbacks (add_done_callback c f) = done_callbacks f @ [c]"
    "calls (cs @ [c]) v = calls cs v @ [(cb_name c, v)]"
    by (simp_all add: add_done_callback_def calls_def)
  from 1 2 3 4 5 6 7 8 show ?thesis by blast
qed

text \<open>
  \<open>job_s\<close> waits for \<^verbatim>\<open>run\<close>; the step of its task calls its done-callback once, with 4.
  The task of the cancelled \<open>job_a\<close> has ended: a step of it changes nothing.
\<close>

theorem done_callbacks_fire_per_completion_witness:
  "fired (step 0 (step 0 engine_s_pending)) = [(''on_done'', VInt 4)] \<and>
   task_ended 0 engine_a_cancelled \<and>
   step 0 engine_a_cancelled = engine_a_cancelled"
proof -
  let ?s = "step 0 engine_s_pending"
  have "\<exists>j. print_traceback ?s = None \<and> 0 < length (tasks ?s) \<and>
          t_state (tasks ?s ! 0) = AtRun \<and> t_job (tasks ?s ! 0) = ''s'' \<and>
          heap ?s ''s'' = Some j \<and> run j = Inr (VInt 4) \<and>
          done_callbacks (future j) = [Callback ''on_done'' (\<lambda>v. None)] \<and> fired ?s = []"
    by (simp add: fixture_defs method_defs)
  then obtain j where a: "print_traceback ?s = None" "0 < length (tasks ?s)"
    "t_state (tasks ?s ! 0) = AtRun" "t_job (tasks ?s ! 0) = ''s''"
    "heap ?s ''s'' = Some j" "run j = Inr (VInt 4)"
    "done_callbacks (future j) = [Callback ''on_done'' (\<lambda>v. None)]" "fired ?s = []"
    by blast
  from done_callbacks_fire_per_completion [where e = "?s" and t = 0 and j = j
      and v = "VInt 4"] a
  have 1: "fired (step 0 ?s) = [(''on_done'', VInt 4)]"
    by (simp add: calls_def)
  have 2: "task_ended 0 engine_a_cancelled"
    by (simp add: fixture_defs method_defs)
  from done_callbacks_fire_per_completion [where e = engine_a_cancelled and t = 0] 2
  have 3: "step 0 engine_a_cancelled = engine_a_cancelled"
    by blast
  from 1 2 3 show ?thesis by blast
qed

text \<open>
  C3 as stated fails: \<open>job_s\<close> has one done-callback.  It runs to \<^verbatim>\<open>done\<close>, is
  submitted again and runs to \<^verbatim>\<open>done\<close> again: the callback has been called twice.
\<close>

theorem done_callback_fires_again_counterexample:
  "job_view (map cb_name \<circ> done_callbacks \<circ> future) ''s'' engine_s_done = Some [''on_done''] \<and>
   job_view status ''s'' engine_s_done = Some Done \<and>
   fired engine_s_done = [(''on_done'', VInt 4)] \<and>
   job_view status ''s'' engine_s_twice = Some Done \<and>
   fired engine_s_twice = [(''on_done'', VInt 4), (''on_done'', VInt 4)]"
  by (simp add: fixture_defs method_defs eval_nat_numeral)

end
